theory Spec2Isabelle
  imports Complex_Main "HOL-Library.Sublist" "HOL-Library.AList"
begin

section \<open>Conventions of the embedding\<close>

text \<open>
  The engine is the class \<open>LawvisoryBaseStrategy\<close> of \<open>strategies/base_strategy.py\<close>.
  Python floats are modelled as real numbers with exact arithmetic; the only NaN the
  engine tests for, the undefined rolling mean, is the value \<open>None\<close>. Python ints are
  \<open>int\<close>, calendar dates are day numbers (\<open>int\<close>), \<open>timedelta(days=n)\<close> adds \<open>n\<close>.
  Strings are ASCII strings.
\<close>

section \<open>Strings\<close>

definition lower_char :: "char \<Rightarrow> char" where
  "lower_char c = (let n = (of_char c :: nat)
                   in if 65 \<le> n \<and> n \<le> 90 then char_of (n + 32) else c)"

definition upper_char :: "char \<Rightarrow> char" where
  "upper_char c = (let n = (of_char c :: nat)
                   in if 97 \<le> n \<and> n \<le> 122 then char_of (n - 32) else c)"

text \<open>\<open>str.lower()\<close> and \<open>str.upper()\<close>.\<close>

definition py_lower :: "string \<Rightarrow> string" where
  "py_lower s = map lower_char s"

definition py_upper :: "string \<Rightarrow> string" where
  "py_upper s = map upper_char s"

text \<open>The ASCII characters that \<open>str.strip()\<close> removes: tab, newline, vertical tab,
  form feed, carriage return, the separators 28 to 31, and the space.\<close>

definition is_space :: "char \<Rightarrow> bool" where
  "is_space c = (let n = (of_char c :: nat) in (9 \<le> n \<and> n \<le> 13) \<or> (28 \<le> n \<and> n \<le> 32))"

definition py_strip :: "string \<Rightarrow> string" where
  "py_strip s = rev (dropWhile is_space (rev (dropWhile is_space s)))"

text \<open>\<open>str.replace(".", "-")\<close>, on single characters.\<close>

definition replace_dot :: "string \<Rightarrow> string" where
  "replace_dot s = map (\<lambda>c. if c = CHR ''.'' then CHR ''-'' else c) s"

section \<open>Profile and the preset table\<close>

record profile =
  max_positions :: int
  rebalance_every_days :: int
  risk_per_entry_cap :: real
  total_risk_budget :: real
  target_exposure_bull :: real
  target_exposure_bear :: real
  min_price :: real
  vol_penalty :: real
  max_sector_positions :: int
  atr_period :: int
  atr_mult_trail :: real
  max_drawdown :: real
  cooldown_days :: int

definition balanced_profile :: profile where
  "balanced_profile = \<lparr>
     max_positions = 10, rebalance_every_days = 14,
     risk_per_entry_cap = 1 / 100, total_risk_budget = 7 / 100,
     target_exposure_bull = 98 / 100, target_exposure_bear = 20 / 100,
     min_price = 5, vol_penalty = 25 / 100,
     max_sector_positions = 3,
     atr_period = 14, atr_mult_trail = 27 / 10,
     max_drawdown = 20 / 100, cooldown_days = 10 \<rparr>"

definition max_return_profile :: profile where
  "max_return_profile = \<lparr>
     max_positions = 7, rebalance_every_days = 10,
     risk_per_entry_cap = 1 / 100, total_risk_budget = 10 / 100,
     target_exposure_bull = 99 / 100, target_exposure_bear = 30 / 100,
     min_price = 5, vol_penalty = 15 / 100,
     max_sector_positions = 2,
     atr_period = 14, atr_mult_trail = 3,
     max_drawdown = 20 / 100, cooldown_days = 7 \<rparr>"

definition PROFILES :: "(string \<times> profile) list" where
  "PROFILES = [(''balanced'', balanced_profile), (''max_return'', max_return_profile)]"

section \<open>Class constants\<close>

definition BREADTH_LOW :: real where "BREADTH_LOW = 35 / 100"
definition BREADTH_HIGH :: real where "BREADTH_HIGH = 65 / 100"
definition MIN_ORDER_DOLLARS :: real where "MIN_ORDER_DOLLARS = 150"
definition NO_LOOKAHEAD :: bool where "NO_LOOKAHEAD = True"
definition MAX_UNIVERSE_FOR_SPEED :: int where "MAX_UNIVERSE_FOR_SPEED = 500"

section \<open>Bars and the engine state\<close>

text \<open>
  A row of the daily data frame: its index date and the three columns the engine reads.
  \<open>has_nan\<close> records that some cell of the row is NaN, which is all \<open>dropna()\<close> looks at.
\<close>

record bar =
  bar_date :: int
  high :: real
  low :: real
  close :: real
  has_nan :: bool

text \<open>
  A data frame: whether its index is a \<open>DatetimeIndex\<close>, its column names as delivered,
  and its rows in ascending date order.
\<close>

record frame =
  datetime_index :: bool
  columns :: "string list"
  rows :: "bar list"

text \<open>The attributes of \<open>self\<close> that \<open>initialize\<close> sets.\<close>

record engine =
  profile :: profile
  universe :: "string list"
  last_rebalance_day :: "int option"
  highest_close :: "string \<rightharpoonup> real"
  equity_peak :: "real option"
  cooldown_until :: "int option"
  cache_day :: "int option"
  hist_cache :: "(string \<times> int) \<rightharpoonup> frame"
  sector_by_symbol :: "(string \<times> string) list"

section \<open>Initialization\<close>

text \<open>The optional keyword arguments of \<open>initialize\<close> (\<open>None\<close>: not given).\<close>

record overrides =
  ov_risk_per_entry_cap :: "real option"
  ov_total_risk_budget :: "real option"
  ov_atr_mult_trail :: "real option"
  ov_rebalance_every_days :: "int option"
  ov_vol_penalty :: "real option"
  ov_max_drawdown :: "real option"
  ov_target_exposure_bear :: "real option"
  ov_target_exposure_bull :: "real option"

definition no_overrides :: overrides where
  "no_overrides = \<lparr>
     ov_risk_per_entry_cap = None, ov_total_risk_budget = None, ov_atr_mult_trail = None,
     ov_rebalance_every_days = None, ov_vol_penalty = None, ov_max_drawdown = None,
     ov_target_exposure_bear = None, ov_target_exposure_bull = None \<rparr>"

text \<open>\<open>str(risk_profile_name or "balanced").lower().strip()\<close>: \<open>None\<close> and the empty
  string are falsy.\<close>

definition profile_name :: "string option \<Rightarrow> string" where
  "profile_name risk_profile_name =
     py_strip (py_lower (case risk_profile_name of
                           None \<Rightarrow> ''balanced''
                         | Some s \<Rightarrow> (if s = [] then ''balanced'' else s)))"

text \<open>\<open>PROFILES.get(name, PROFILES["balanced"])\<close>.\<close>

definition lookup_profile :: "string \<Rightarrow> profile" where
  "lookup_profile name =
     (case map_of PROFILES name of Some p \<Rightarrow> p | None \<Rightarrow> balanced_profile)"

definition apply_overrides :: "overrides \<Rightarrow> profile \<Rightarrow> profile" where
  "apply_overrides ov prof0 =
     (let prof = (case ov_risk_per_entry_cap ov of None \<Rightarrow> prof0
                  | Some v \<Rightarrow> prof0\<lparr>risk_per_entry_cap := v\<rparr>);
          prof = (case ov_total_risk_budget ov of None \<Rightarrow> prof
                  | Some v \<Rightarrow> prof\<lparr>total_risk_budget := v\<rparr>);
          prof = (case ov_atr_mult_trail ov of None \<Rightarrow> prof
                  | Some v \<Rightarrow> prof\<lparr>atr_mult_trail := v\<rparr>);
          prof = (case ov_rebalance_every_days ov of None \<Rightarrow> prof
                  | Some v \<Rightarrow> prof\<lparr>rebalance_every_days := v\<rparr>);
          prof = (case ov_vol_penalty ov of None \<Rightarrow> prof
                  | Some v \<Rightarrow> prof\<lparr>vol_penalty := v\<rparr>);
          prof = (case ov_max_drawdown ov of None \<Rightarrow> prof
                  | Some v \<Rightarrow> prof\<lparr>max_drawdown := v\<rparr>);
          prof = (case ov_target_exposure_bear ov of None \<Rightarrow> prof
                  | Some v \<Rightarrow> prof\<lparr>target_exposure_bear := v\<rparr>);
          prof = (case ov_target_exposure_bull ov of None \<Rightarrow> prof
                  | Some v \<Rightarrow> prof\<lparr>target_exposure_bull := v\<rparr>)
      in prof)"

text \<open>
  \<open>initialize\<close>. The two values read from the file system, the default universe
  (\<open>_default_universe\<close>) and the sector map (\<open>_load_sector_map\<close>), are arguments.
  \<open>universe or default\<close>: \<open>None\<close> and the empty list are falsy.
\<close>

definition initialize ::
  "string option \<Rightarrow> string list option \<Rightarrow> overrides \<Rightarrow> string list \<Rightarrow> (string \<times> string) list
     \<Rightarrow> engine" where
  "initialize risk_profile_name universe_arg ov default_universe sector_map =
     (let name = profile_name risk_profile_name;
          prof = apply_overrides ov (lookup_profile name)
      in \<lparr> profile = prof,
           universe = (case universe_arg of None \<Rightarrow> default_universe
                       | Some u \<Rightarrow> (if u = [] then default_universe else u)),
           last_rebalance_day = None,
           highest_close = Map.empty,
           equity_peak = None,
           cooldown_until = None,
           cache_day = None,
           hist_cache = Map.empty,
           sector_by_symbol = sector_map \<rparr>)"

text \<open>\<open>ConservativeStrategy.initialize\<close>:
  \<open>super().initialize(risk_profile_name="conservative")\<close>.\<close>

definition conservative_initialize :: "string list \<Rightarrow> (string \<times> string) list \<Rightarrow> engine" where
  "conservative_initialize default_universe sector_map =
     initialize (Some ''conservative'') None no_overrides default_universe sector_map"

section \<open>The host runtime\<close>

datatype side = Buy | Sell

text \<open>\<open>create_order(symbol, quantity, side)\<close>, as handed to \<open>submit_order\<close>.\<close>

datatype order = Order (order_symbol: string) (order_quantity: real) (order_side: side)

datatype py_error = IndexError | ValueError

text \<open>
  What the host answers during one trading step. The first group are the host's accessors:
  \<open>get_datetime().date()\<close>, \<open>is_backtesting\<close>, \<open>get_historical_prices(sym, length)\<close>
  (\<open>None\<close>: the call, or reading its frame, raised), \<open>get_last_price\<close>,
  \<open>get_portfolio_value\<close>, \<open>get_positions\<close> as pairs of symbol and quantity, and
  \<open>get_position\<close> as the quantity held. A step reads one snapshot: orders are instructions
  whose fills the host reports on a later step.

  The second group are the values that the engine's own indicator methods return on this
  step wherever the trading logic calls them: \<open>_atr(sym)\<close>, \<open>_realized_vol(sym)\<close>,
  \<open>_spy_trend_bull()\<close>, \<open>_breadth_fraction()\<close> and \<open>_rank_candidates()\<close>. The trading
  logic below is modelled for the steps on which those calls return.
\<close>

record host =
  today :: int
  is_backtesting :: bool
  get_historical_prices :: "string \<Rightarrow> int \<Rightarrow> frame option"
  get_last_price :: "string \<Rightarrow> real option"
  get_portfolio_value :: real
  get_positions :: "(string \<times> real) list"
  get_position :: "string \<Rightarrow> real option"
  obs_atr :: "string \<Rightarrow> real option"
  obs_realized_vol :: "string \<Rightarrow> real option"
  obs_spy_trend_bull :: "bool option"
  obs_breadth_fraction :: "real option"
  obs_rank_candidates :: "string list"

section \<open>Scheduling and symbol mapping\<close>

definition should_rebalance_today :: "host \<Rightarrow> engine \<Rightarrow> bool" where
  "should_rebalance_today h e =
     (case last_rebalance_day e of
        None \<Rightarrow> True
      | Some d \<Rightarrow> today h - d \<ge> rebalance_every_days (profile e))"

definition in_cooldown :: "host \<Rightarrow> engine \<Rightarrow> bool" where
  "in_cooldown h e =
     (case cooldown_until e of None \<Rightarrow> False | Some d \<Rightarrow> today h \<le> d)"

definition src_symbol :: "host \<Rightarrow> string \<Rightarrow> string" where
  "src_symbol h symbol =
     (let s = py_strip (py_upper symbol)
      in if is_backtesting h then replace_dot s else s)"

section \<open>BarCache\<close>

text \<open>\<open>df.columns = [c.lower() ...]; df = df.dropna()\<close>.\<close>

definition normalize_frame :: "frame \<Rightarrow> frame" where
  "normalize_frame df =
     df\<lparr>columns := map py_lower (columns df),
        rows := filter (\<lambda>b. \<not> has_nan b) (rows df)\<rparr>"

text \<open>The no-lookahead trimming: \<open>df.iloc[:-1]\<close> is \<open>butlast\<close>.\<close>

definition trim_lookahead :: "int \<Rightarrow> frame \<Rightarrow> frame" where
  "trim_lookahead today_date df =
     (if NO_LOOKAHEAD \<and> datetime_index df \<and> length (rows df) \<ge> 3
      then (if bar_date (last (rows df)) \<ge> today_date
            then df\<lparr>rows := butlast (rows df)\<rparr> else df)
      else df)"

text \<open>\<open>_get_daily_df\<close>: the frame returned (\<open>None\<close> after a failed fetch) and
  the engine with its cache updated.\<close>

definition get_daily_df :: "host \<Rightarrow> engine \<Rightarrow> string \<Rightarrow> int \<Rightarrow> frame option \<times> engine" where
  "get_daily_df h e symbol len =
     (let e1 = (if cache_day e \<noteq> Some (today h)
                then e\<lparr>cache_day := Some (today h), hist_cache := Map.empty\<rparr> else e);
          symb = src_symbol h symbol;
          key = (symb, len)
      in case hist_cache e1 key of
           Some df \<Rightarrow> (Some df, e1)
         | None \<Rightarrow>
             (case get_historical_prices h symb len of
                None \<Rightarrow> (None, e1)
              | Some bars \<Rightarrow>
                  (let df = trim_lookahead (today h) (normalize_frame bars)
                   in (Some df, e1\<lparr>hist_cache := (hist_cache e1)(key \<mapsto> df)\<rparr>))))"

section \<open>IndicatorLibrary\<close>

text \<open>
  The true range of a row. \<open>close.shift(1)\<close> is NaN on the first row, and the row-wise
  \<open>max(axis=1)\<close> skips NaN, so the first row's true range is \<open>|high - low|\<close>.
\<close>

definition true_range :: "real option \<Rightarrow> bar \<Rightarrow> real" where
  "true_range prev_close b =
     (case prev_close of
        None \<Rightarrow> \<bar>high b - low b\<bar>
      | Some pc \<Rightarrow> max \<bar>high b - low b\<bar> (max \<bar>high b - pc\<bar> \<bar>low b - pc\<bar>))"

fun true_ranges :: "real option \<Rightarrow> bar list \<Rightarrow> real list" where
  "true_ranges prev_close [] = []"
| "true_ranges prev_close (b # bs) = true_range prev_close b # true_ranges (Some (close b)) bs"

text \<open>
  \<open>series.rolling(window).mean().iloc[-1]\<close>: a negative window raises \<open>ValueError\<close>,
  \<open>iloc[-1]\<close> of an empty series raises \<open>IndexError\<close>, the mean is NaN (\<open>None\<close>) when
  fewer than \<open>window\<close> values exist or the window is empty, and otherwise it is the mean of
  the last \<open>window\<close> values.
\<close>

definition rolling_mean_last :: "int \<Rightarrow> real list \<Rightarrow> py_error + real option" where
  "rolling_mean_last window xs =
     (if window < 0 then Inl ValueError
      else if xs = [] then Inl IndexError
      else if window = 0 \<or> int (length xs) < window then Inr None
      else Inr (Some (sum_list (drop (length xs - nat window) xs) / of_int window)))"

text \<open>The body of \<open>_atr\<close> after the frame has been fetched.\<close>

definition atr_of_frame :: "profile \<Rightarrow> frame option \<Rightarrow> py_error + real option" where
  "atr_of_frame prof dfo =
     (case dfo of
        None \<Rightarrow> Inr None
      | Some df \<Rightarrow>
          if \<not> (''high'' \<in> set (columns df) \<and> ''low'' \<in> set (columns df)
                 \<and> ''close'' \<in> set (columns df))
          then Inr None
          else (case rolling_mean_last (atr_period prof) (true_ranges None (rows df)) of
                  Inl err \<Rightarrow> Inl err
                | Inr None \<Rightarrow> Inr None
                | Inr (Some a) \<Rightarrow> (if a \<le> 0 then Inr None else Inr (Some a))))"

text \<open>The number of bars \<open>_atr\<close> asks for.\<close>

definition atr_length :: "profile \<Rightarrow> int" where
  "atr_length prof = max (atr_period prof + 10) 80"

definition atr :: "host \<Rightarrow> engine \<Rightarrow> string \<Rightarrow> (py_error + real option) \<times> engine" where
  "atr h e symbol =
     (let (df, e') = get_daily_df h e symbol (atr_length (profile e))
      in (atr_of_frame (profile e) df, e'))"

text \<open>
  Python's \<open>xs.iloc[-k]\<close> for \<open>k \<ge> 0\<close> on a series longer than \<open>k\<close>: position
  \<open>len - k\<close> for \<open>k > 0\<close>, and position 0 for \<open>k = 0\<close>.
\<close>

definition iloc_neg :: "real list \<Rightarrow> nat \<Rightarrow> real" where
  "iloc_neg xs k = (if k = 0 then xs ! 0 else xs ! (length xs - k))"

text \<open>
  The local function \<open>mom\<close> of \<open>_rank_candidates\<close>, with the two variables it captures:
  the close series and \<open>last_close = close.iloc[-1]\<close>.
\<close>

definition mom :: "real list \<Rightarrow> real \<Rightarrow> nat \<Rightarrow> real option" where
  "mom closes last_close lb =
     (if length closes \<le> lb then None
      else (let past = iloc_neg closes lb
            in if past \<le> 0 then None else Some (last_close / past - 1)))"

section \<open>RegimeDetector\<close>

text \<open>The breadth dial of \<open>_risk_on_fraction\<close>:
  \<open>dial = (b - LOW) / max(1e-9, HIGH - LOW)\<close>, then \<open>max(0.0, min(1.0, dial))\<close>.\<close>

definition breadth_dial :: "real \<Rightarrow> real" where
  "breadth_dial b =
     (let dial = (b - BREADTH_LOW) / max (1 / 10 ^ 9) (BREADTH_HIGH - BREADTH_LOW)
      in max 0 (min 1 dial))"

definition risk_on_fraction :: "host \<Rightarrow> engine \<Rightarrow> real" where
  "risk_on_fraction h e =
     (let bear = target_exposure_bear (profile e);
          bull = target_exposure_bull (profile e);
          base = (case obs_spy_trend_bull h of
                    Some True \<Rightarrow> bull | Some False \<Rightarrow> bear | None \<Rightarrow> 1)
      in if \<not> should_rebalance_today h e then base
         else (case obs_breadth_fraction h of
                 None \<Rightarrow> base
               | Some b \<Rightarrow>
                   (let dial = breadth_dial b;
                        expo = bear + dial * (bull - bear)
                    in max 0 (min 1 expo))))"

section \<open>Selector\<close>

text \<open>The slice \<open>xs[:n]\<close>; a negative \<open>n\<close> counts from the end.\<close>

definition py_take :: "int \<Rightarrow> 'a list \<Rightarrow> 'a list" where
  "py_take n xs = (if n \<ge> 0 then take (nat n) xs else take (length xs - nat (- n)) xs)"

text \<open>\<open>self._sector_by_symbol.get(sym, "UNKNOWN")\<close>; the sector map is the list of the
  dictionary's items.\<close>

definition sector_of :: "(string \<times> string) list \<Rightarrow> string \<Rightarrow> string" where
  "sector_of sector_map symb =
     (case map_of sector_map symb of None \<Rightarrow> ''UNKNOWN'' | Some sec \<Rightarrow> sec)"

text \<open>\<open>sector_count.get(sec, 0)\<close>.\<close>

definition count_get :: "(string \<rightharpoonup> int) \<Rightarrow> string \<Rightarrow> int" where
  "count_get sector_count sec = (case sector_count sec of None \<Rightarrow> 0 | Some n \<Rightarrow> n)"

text \<open>The first loop of \<open>_select_with_sector_caps\<close>, from the state
  \<open>(sector_count, selected)\<close> it has reached over the rest of the ranked list.\<close>

fun first_pass ::
  "(string \<times> string) list \<Rightarrow> int \<Rightarrow> int \<Rightarrow> string list \<Rightarrow> (string \<rightharpoonup> int) \<Rightarrow> string list
     \<Rightarrow> string list" where
  "first_pass sm max_pos cap [] sector_count selected = selected"
| "first_pass sm max_pos cap (symb # rest) sector_count selected =
     (let sec = sector_of sm symb
      in if count_get sector_count sec \<ge> cap
         then first_pass sm max_pos cap rest sector_count selected
         else (let selected' = selected @ [symb];
                   sector_count' = sector_count(sec \<mapsto> count_get sector_count sec + 1)
               in if int (length selected') \<ge> max_pos then selected'
                  else first_pass sm max_pos cap rest sector_count' selected'))"

text \<open>The second loop, which ignores the sectors.\<close>

fun fallback_pass :: "int \<Rightarrow> string list \<Rightarrow> string list \<Rightarrow> string list" where
  "fallback_pass max_pos [] selected = selected"
| "fallback_pass max_pos (symb # rest) selected =
     (if symb \<in> set selected then fallback_pass max_pos rest selected
      else (let selected' = selected @ [symb]
            in if int (length selected') \<ge> max_pos then selected'
               else fallback_pass max_pos rest selected'))"

definition select_with_sector_caps :: "engine \<Rightarrow> string list \<Rightarrow> string list" where
  "select_with_sector_caps e ranked =
     (let max_pos = max_positions (profile e);
          cap = max_sector_positions (profile e)
      in if ranked = [] then []
         else if sector_by_symbol e = [] then py_take max_pos ranked
         else (let selected = first_pass (sector_by_symbol e) max_pos cap ranked Map.empty []
               in if int (length selected) < max_pos
                  then fallback_pass max_pos ranked selected
                  else selected))"

section \<open>PositionGuard\<close>

text \<open>
  The body of the loop of \<open>_apply_trailing_stops\<close> for one position, from the tracked
  highs reached so far: the tracked highs and the orders submitted. Each \<open>continue\<close> ends
  the body.
\<close>

definition trail_position ::
  "host \<Rightarrow> profile \<Rightarrow> string \<times> real \<Rightarrow> (string \<rightharpoonup> real)
     \<Rightarrow> (string \<rightharpoonup> real) \<times> order list" where
  "trail_position h prof pos hc =
     (let symb = fst pos; qty = snd pos
      in if qty \<le> 0 then (hc, [])
         else (case get_last_price h (src_symbol h symb) of
                 None \<Rightarrow> (hc, [])
               | Some px \<Rightarrow>
                   if px \<le> 0 then (hc, [])
                   else (let prev_high0 = (case hc symb of None \<Rightarrow> px | Some v \<Rightarrow> v);
                             prev_high = (if px > prev_high0 then px else prev_high0);
                             hc1 = hc(symb \<mapsto> prev_high)
                         in case obs_atr h symb of
                              None \<Rightarrow> (hc1, [])
                            | Some a \<Rightarrow>
                                (let stop = prev_high - atr_mult_trail prof * a
                                 in if px \<le> stop
                                    then (hc1(symb := None),
                                          [Order (src_symbol h symb) \<bar>qty\<bar> Sell])
                                    else (hc1, [])))))"

text \<open>\<open>_apply_trailing_stops\<close>: the loop over the positions.\<close>

fun apply_trailing_stops ::
  "host \<Rightarrow> profile \<Rightarrow> (string \<times> real) list \<Rightarrow> (string \<rightharpoonup> real)
     \<Rightarrow> (string \<rightharpoonup> real) \<times> order list" where
  "apply_trailing_stops h prof [] hc = (hc, [])"
| "apply_trailing_stops h prof (pos # ps) hc =
     (let (hc1, os1) = trail_position h prof pos hc;
          (hc2, os2) = apply_trailing_stops h prof ps hc1
      in (hc2, os1 @ os2))"

text \<open>The liquidation loop of the drawdown breaker.\<close>

fun liquidate ::
  "host \<Rightarrow> (string \<times> real) list \<Rightarrow> (string \<rightharpoonup> real) \<Rightarrow> (string \<rightharpoonup> real) \<times> order list" where
  "liquidate h [] hc = (hc, [])"
| "liquidate h ((symb, qty) # ps) hc =
     (let (hc', os) = liquidate h ps (hc(symb := None))
      in if qty \<noteq> 0
         then (hc', Order (src_symbol h symb) \<bar>qty\<bar> (if qty > 0 then Sell else Buy) # os)
         else (hc', os))"

text \<open>The drawdown \<open>(peak - pv) / max(1e-9, peak)\<close>.\<close>

definition drawdown :: "real \<Rightarrow> real \<Rightarrow> real" where
  "drawdown peak pv = (peak - pv) / max (1 / 10 ^ 9) peak"

definition apply_drawdown_breaker :: "host \<Rightarrow> engine \<Rightarrow> engine \<times> order list" where
  "apply_drawdown_breaker h e =
     (let pv = get_portfolio_value h
      in case equity_peak e of
           None \<Rightarrow> (e\<lparr>equity_peak := Some pv\<rparr>, [])
         | Some peak \<Rightarrow>
             if pv > peak then (e\<lparr>equity_peak := Some pv\<rparr>, [])
             else if drawdown peak pv \<ge> max_drawdown (profile e)
             then (let (hc', os) = liquidate h (get_positions h) (highest_close e)
                   in (e\<lparr>highest_close := hc',
                         cooldown_until := Some (today h + cooldown_days (profile e))\<rparr>, os))
             else (e, []))"

section \<open>RiskSizer and the rebalance\<close>

text \<open>Step 1 of \<open>_rebalance\<close>: sell every held position outside the selection.\<close>

fun sell_unselected ::
  "host \<Rightarrow> string list \<Rightarrow> (string \<times> real) list \<Rightarrow> (string \<rightharpoonup> real)
     \<Rightarrow> (string \<rightharpoonup> real) \<times> order list" where
  "sell_unselected h selected [] hc = (hc, [])"
| "sell_unselected h selected ((symb, qty) # ps) hc =
     (if qty \<noteq> 0 \<and> symb \<notin> set selected
      then (let (hc', os) = sell_unselected h selected ps (hc(symb := None))
            in (hc', Order (src_symbol h symb) \<bar>qty\<bar> (if qty > 0 then Sell else Buy) # os))
      else sell_unselected h selected ps hc)"

text \<open>
  Step 2: the dictionary \<open>vols\<close>, as the list of its items in insertion order
  (\<open>AList.update\<close> overwrites a key in place and appends a new one, as a Python
  dictionary does).
\<close>

fun build_vols :: "host \<Rightarrow> string list \<Rightarrow> (string \<times> real) list \<Rightarrow> (string \<times> real) list" where
  "build_vols h [] vols = vols"
| "build_vols h (symb # rest) vols =
     (case obs_realized_vol h symb of
        None \<Rightarrow> build_vols h rest vols
      | Some v \<Rightarrow> (if v > 0 then build_vols h rest (AList.update symb v vols)
                   else build_vols h rest vols))"

text \<open>\<open>inv\<close>, \<open>inv_sum\<close> and \<open>weights\<close>.\<close>

definition inverse_vol_weights :: "(string \<times> real) list \<Rightarrow> (string \<times> real) list" where
  "inverse_vol_weights vols =
     (let inv = map (\<lambda>(s, v). (s, 1 / v)) vols;
          inv_sum = sum_list (map snd inv)
      in map (\<lambda>(s, i). (s, i / inv_sum)) inv)"

text \<open>\<open>int(a // b)\<close> on floats.\<close>

definition floor_div :: "real \<Rightarrow> real \<Rightarrow> int" where
  "floor_div a b = \<lfloor>a / b\<rfloor>"

definition shares_by_risk :: "profile \<Rightarrow> real \<Rightarrow> real \<Rightarrow> real \<Rightarrow> int" where
  "shares_by_risk prof pv w a =
     (let total_risk_dollars = pv * total_risk_budget prof;
          risk_dollars_cap = pv * risk_per_entry_cap prof;
          stop_dist = max (1 / 100) (atr_mult_trail prof * a);
          risk_dollars = min (total_risk_dollars * w) risk_dollars_cap
      in floor_div risk_dollars stop_dist)"

definition shares_by_capital :: "real \<Rightarrow> real \<Rightarrow> real \<Rightarrow> real \<Rightarrow> int" where
  "shares_by_capital pv exposure w px = floor_div (pv * exposure * w) px"

text \<open>
  Step 3: the loop over \<open>weights.items()\<close> that fills \<open>desired_qty\<close>. The keys of
  \<open>weights\<close> are distinct, so every assignment \<open>desired_qty[sym] = shares\<close> appends.
\<close>

fun size_positions ::
  "host \<Rightarrow> profile \<Rightarrow> real \<Rightarrow> real \<Rightarrow> (string \<times> real) list \<Rightarrow> (string \<times> int) list" where
  "size_positions h prof pv exposure [] = []"
| "size_positions h prof pv exposure ((symb, w) # rest) =
     (case get_last_price h (src_symbol h symb) of
        None \<Rightarrow> size_positions h prof pv exposure rest
      | Some px \<Rightarrow>
          if px \<le> 0 then size_positions h prof pv exposure rest
          else (case obs_atr h symb of
                  None \<Rightarrow> size_positions h prof pv exposure rest
                | Some a \<Rightarrow>
                    (let shares = max 0 (min (shares_by_risk prof pv w a)
                                             (shares_by_capital pv exposure w px))
                     in if shares \<le> 0 then size_positions h prof pv exposure rest
                        else if of_int shares * px < MIN_ORDER_DOLLARS
                        then size_positions h prof pv exposure rest
                        else (symb, shares) # size_positions h prof pv exposure rest)))"

text \<open>Steps 2 and 3 together: the dictionary \<open>desired_qty\<close> for a selection.\<close>

definition desired_qty :: "host \<Rightarrow> profile \<Rightarrow> string list \<Rightarrow> real \<Rightarrow> (string \<times> int) list" where
  "desired_qty h prof selected exposure =
     size_positions h prof (get_portfolio_value h) exposure
       (inverse_vol_weights (build_vols h selected []))"

text \<open>\<open>int(float(q))\<close>: truncation towards zero.\<close>

definition py_int :: "real \<Rightarrow> int" where
  "py_int q = (if q \<ge> 0 then \<lfloor>q\<rfloor> else \<lceil>q\<rceil>)"

text \<open>Step 4: the delta orders.\<close>

fun submit_deltas ::
  "host \<Rightarrow> (string \<times> int) list \<Rightarrow> (string \<rightharpoonup> real) \<Rightarrow> (string \<rightharpoonup> real) \<times> order list" where
  "submit_deltas h [] hc = (hc, [])"
| "submit_deltas h ((symb, target) # rest) hc =
     (let cur = (case get_position h (src_symbol h symb) of None \<Rightarrow> 0 | Some q \<Rightarrow> py_int q);
          delta = target - cur
      in if delta = 0 then submit_deltas h rest hc
         else (case get_last_price h (src_symbol h symb) of
                 None \<Rightarrow> submit_deltas h rest hc
               | Some px \<Rightarrow>
                   if px \<le> 0 then submit_deltas h rest hc
                   else if of_int \<bar>delta\<bar> * px < MIN_ORDER_DOLLARS then submit_deltas h rest hc
                   else if delta > 0
                   then (let lastp = (case get_last_price h (src_symbol h symb) of
                                        None \<Rightarrow> 0 | Some v \<Rightarrow> v);
                             hc1 = (if lastp > 0
                                    then hc(symb \<mapsto> max (case hc symb of None \<Rightarrow> lastp
                                                             | Some v \<Rightarrow> v) lastp)
                                    else hc);
                             (hc', os) = submit_deltas h rest hc1
                         in (hc', Order (src_symbol h symb) (of_int delta) Buy # os))
                   else (let hc1 = (if cur + delta \<le> 0 then hc(symb := None) else hc);
                             (hc', os) = submit_deltas h rest hc1
                         in (hc', Order (src_symbol h symb) (of_int \<bar>delta\<bar>) Sell # os))))"

definition rebalance :: "host \<Rightarrow> engine \<Rightarrow> string list \<Rightarrow> real \<Rightarrow> engine \<times> order list" where
  "rebalance h e selected exposure0 =
     (if selected = [] then (e, [])
      else (let exposure = max 0 (min 1 exposure0);
                (hc1, os1) = sell_unselected h selected (get_positions h) (highest_close e);
                vols = build_vols h selected []
            in if vols = [] then (e\<lparr>highest_close := hc1\<rparr>, os1)
               else (let desired = desired_qty h (profile e) selected exposure
                     in if desired = [] then (e\<lparr>highest_close := hc1\<rparr>, os1)
                        else (let (hc2, os2) = submit_deltas h desired hc1
                              in (e\<lparr>highest_close := hc2\<rparr>, os1 @ os2)))))"

section \<open>The trading step\<close>

definition on_trading_iteration :: "host \<Rightarrow> engine \<Rightarrow> engine \<times> order list" where
  "on_trading_iteration h e =
     (let (hc1, os1) = apply_trailing_stops h (profile e) (get_positions h) (highest_close e);
          e1 = e\<lparr>highest_close := hc1\<rparr>;
          (e2, os2) = apply_drawdown_breaker h e1
      in if in_cooldown h e2 then (e2, os1 @ os2)
         else if \<not> should_rebalance_today h e2 then (e2, os1 @ os2)
         else (let exposure = risk_on_fraction h e2;
                   ranked = obs_rank_candidates h;
                   selected = select_with_sector_caps e2 ranked;
                   (e3, os3) = rebalance h e2 selected exposure
               in (e3\<lparr>last_rebalance_day := Some (today h)\<rparr>, os1 @ os2 @ os3)))"

section \<open>Measures and concrete inputs\<close>

text \<open>A host with nothing to report on day \<open>d\<close> but the portfolio value \<open>pv\<close>.\<close>

definition quiet_host :: "int \<Rightarrow> real \<Rightarrow> host" where
  "quiet_host d pv = \<lparr>
     today = d, is_backtesting = False,
     get_historical_prices = (\<lambda>s n. None),
     get_last_price = (\<lambda>s. None),
     get_portfolio_value = pv,
     get_positions = [],
     get_position = (\<lambda>s. None),
     obs_atr = (\<lambda>s. None),
     obs_realized_vol = (\<lambda>s. None),
     obs_spy_trend_bull = None,
     obs_breadth_fraction = None,
     obs_rank_candidates = [] \<rparr>"

text \<open>The engine right after \<open>initialize()\<close> with the defaults, no universe and no
  sector data.\<close>

definition fresh_engine :: engine where
  "fresh_engine = initialize None None no_overrides [] []"

text \<open>A close series of 277 bars, flat at 10 except the bar 63 bars before the last.\<close>

definition dip_closes :: "real list" where
  "dip_closes = replicate 213 10 @ [5] @ replicate 63 10"

definition day_bar :: "int \<Rightarrow> bar" where
  "day_bar d = \<lparr>bar_date = d, high = 2, low = 1, close = 1, has_nan = False\<rparr>"

definition two_bar_frame :: frame where
  "two_bar_frame = \<lparr>datetime_index = True, columns = [''high'', ''low'', ''close''],
                    rows = [day_bar 9, day_bar 10]\<rparr>"

definition two_bar_host :: host where
  "two_bar_host = (quiet_host 10 100)\<lparr>get_historical_prices := (\<lambda>s n. Some two_bar_frame)\<rparr>"

definition three_bar_frame :: frame where
  "three_bar_frame = \<lparr>datetime_index = True, columns = [''high'', ''low'', ''close''],
                    rows = [day_bar 8, day_bar 9, day_bar 10]\<rparr>"

definition three_bar_host :: host where
  "three_bar_host = (quiet_host 10 100)\<lparr>get_historical_prices := (\<lambda>s n. Some three_bar_frame)\<rparr>"



text \<open>How often a sector occurs among the symbols of a list.\<close>

definition sector_occurrences :: "(string \<times> string) list \<Rightarrow> string \<Rightarrow> string list \<Rightarrow> int" where
  "sector_occurrences sm sec xs = int (length (filter (\<lambda>s. sector_of sm s = sec) xs))"

text \<open>An engine with three slots, one position per sector, and a sector map.\<close>

definition capped_engine :: engine where
  "capped_engine = fresh_engine\<lparr>
     profile := balanced_profile\<lparr>max_positions := 3, max_sector_positions := 1\<rparr>,
     sector_by_symbol := [(''A'', ''Tech''), (''B'', ''Tech''), (''C'', ''Fin'')]\<rparr>"

text \<open>The orders of a list that name a given symbol.\<close>

definition orders_for :: "string \<Rightarrow> order list \<Rightarrow> order list" where
  "orders_for s os = filter (\<lambda>ord. order_symbol ord = s) os"

text \<open>A host holding 5 shares of A at the last price 8 with an ATR of 1, and a profile
  with the trailing multiple 2.\<close>

definition stop_host :: host where
  "stop_host = (quiet_host 5 1000)\<lparr>
     get_positions := [(''A'', 5)],
     get_last_price := (\<lambda>s. if s = ''A'' then Some 8 else None),
     obs_atr := (\<lambda>s. if s = ''A'' then Some 1 else None)\<rparr>"

definition stop_profile :: profile where
  "stop_profile = balanced_profile\<lparr>atr_mult_trail := 2\<rparr>"

text \<open>The side of the order that closes a position: \<open>"sell" if qty > 0 else "buy"\<close>.\<close>

definition closing_side :: "real \<Rightarrow> side" where
  "closing_side qty = (if qty > 0 then Sell else Buy)"

text \<open>A host holding 5 shares of A, with no prices or indicators.\<close>

definition holding_host :: host where
  "holding_host = (quiet_host 5 1000)\<lparr>get_positions := [(''A'', 5)]\<rparr>"

text \<open>The last price of a symbol (0 when the host has none), and the dollars allocated by
  a target dictionary: the sum of shares times price.\<close>

definition price_of :: "host \<Rightarrow> string \<Rightarrow> real" where
  "price_of h s = (case get_last_price h (src_symbol h s) of None \<Rightarrow> 0 | Some px \<Rightarrow> px)"

definition allocated_dollars :: "host \<Rightarrow> (string \<times> int) list \<Rightarrow> real" where
  "allocated_dollars h desired = sum_list (map (\<lambda>(s, n). of_int n * price_of h s) desired)"

text \<open>A host with the portfolio value 100,000 and two candidates: A with realized
  volatility 0.20, price 100 and ATR 2, and B with volatility 0.40, price 50 and ATR 1.\<close>

definition sizing_host :: host where
  "sizing_host = (quiet_host 5 100000)\<lparr>
     get_last_price := (\<lambda>s. if s = ''A'' then Some 100 else if s = ''B'' then Some 50 else None),
     obs_atr := (\<lambda>s. if s = ''A'' then Some 2 else if s = ''B'' then Some 1 else None),
     obs_realized_vol := (\<lambda>s. if s = ''A'' then Some (20 / 100)
                               else if s = ''B'' then Some (40 / 100) else None)\<rparr>"

text \<open>A host with the portfolio value 1,000 that holds 50 shares of A, with realized
  volatility 0.20, price 100 and ATR 2; and the two-candidate host with the portfolio
  value -100.\<close>

definition small_host :: host where
  "small_host = (quiet_host 5 1000)\<lparr>
     get_positions := [(''A'', 50)],
     get_position := (\<lambda>s. if s = ''A'' then Some 50 else None),
     get_last_price := (\<lambda>s. if s = ''A'' then Some 100 else None),
     obs_atr := (\<lambda>s. if s = ''A'' then Some 2 else None),
     obs_realized_vol := (\<lambda>s. if s = ''A'' then Some (20 / 100) else None)\<rparr>"

definition indebted_host :: host where
  "indebted_host = sizing_host\<lparr>get_portfolio_value := - 100\<rparr>"

text \<open>A host that reports 5 shares of A and the portfolio value \<open>pv\<close> on day \<open>d\<close>, and
  the engine after three trading steps: a first day at 100, then two days at 80.\<close>

definition equity_day :: "int \<Rightarrow> real \<Rightarrow> host" where
  "equity_day d pv = (quiet_host d pv)\<lparr>get_positions := [(''A'', 5)]\<rparr>"

definition after_day_1 :: engine where
  "after_day_1 = fst (on_trading_iteration (equity_day 1 100) fresh_engine)"

definition after_day_2 :: engine where
  "after_day_2 = fst (on_trading_iteration (equity_day 2 80) after_day_1)"

definition after_day_3 :: engine where
  "after_day_3 = fst (on_trading_iteration (equity_day 3 80) after_day_2)"

section \<open>Initialization falls back to the balanced preset\<close>

lemma apply_no_overrides: "apply_overrides no_overrides p = p"
  by (simp add: apply_overrides_def no_overrides_def)

lemma conservative_name: "profile_name (Some ''conservative'') = ''conservative''"
  by (simp add: profile_name_def py_lower_def py_strip_def lower_char_def is_space_def)

lemma lookup_unknown:
  "name \<notin> fst ` set PROFILES \<Longrightarrow> lookup_profile name = balanced_profile"
  by (simp add: lookup_profile_def PROFILES_def)

lemma fresh_engine_profile: "profile fresh_engine = balanced_profile"
  by (simp add: fresh_engine_def initialize_def apply_no_overrides lookup_profile_def
      profile_name_def PROFILES_def py_lower_def py_strip_def lower_char_def is_space_def)

text \<open>
  Claim C9. When the profile name, lowercased and stripped, is not a key of \<open>PROFILES\<close>,
  \<open>initialize\<close> returns an engine whose profile is the balanced preset with the given
  overrides applied, hence the balanced preset itself when no override is given. The name
  \<open>conservative\<close> that \<open>ConservativeStrategy\<close> passes is not a key, and its engine
  has the balanced profile.
\<close>

theorem C9_unknown_profile_falls_back:
  assumes "profile_name risk_profile_name \<notin> fst ` set PROFILES"
  shows "profile (initialize risk_profile_name universe_arg ov default_universe sector_map)
           = apply_overrides ov balanced_profile
       \<and> profile (initialize risk_profile_name universe_arg no_overrides default_universe sector_map)
           = balanced_profile
       \<and> profile_name (Some ''conservative'') \<notin> fst ` set PROFILES
       \<and> profile (conservative_initialize default_universe sector_map) = balanced_profile"
  using assms
  by (simp add: initialize_def conservative_initialize_def lookup_unknown apply_no_overrides
      conservative_name PROFILES_def)

theorem C9_unknown_profile_witness:
  "profile_name (Some ''Conservative '') \<notin> fst ` set PROFILES
   \<and> profile (initialize (Some ''Conservative '') None no_overrides [] []) = balanced_profile"
proof -
  have n: "profile_name (Some ''Conservative '') = ''conservative''"
    by code_simp
  have h: "profile_name (Some ''Conservative '') \<notin> fst ` set PROFILES"
    by (simp add: n PROFILES_def)
  from C9_unknown_profile_falls_back [OF h, of None no_overrides "[]" "[]"] h
  show ?thesis by blast
qed

section \<open>The breadth dial\<close>

lemma dial_const: "max (1 / 10 ^ 9) (BREADTH_HIGH - BREADTH_LOW) = BREADTH_HIGH - BREADTH_LOW"
  by (simp add: BREADTH_HIGH_def BREADTH_LOW_def)

text \<open>
  Claim C8. On a rebalance day on which the breadth fraction \<open>b\<close> is available, the
  exposure is the interpolation between the bear and the bull target at the dial, clamped
  to \<open>[0, 1]\<close>, where the dial is \<open>(b - BREADTH_LOW) / (BREADTH_HIGH - BREADTH_LOW)\<close>
  clamped to \<open>[0, 1]\<close>. At \<open>b = 0.50\<close> the dial is \<open>0.5\<close> and the exposure is the
  clamped midpoint of the two targets, which is the midpoint itself when both targets are
  fractions in \<open>[0, 1]\<close>.
\<close>

theorem C8_breadth_dial_exposure:
  assumes "should_rebalance_today h e" and "obs_breadth_fraction h = Some b"
  shows "breadth_dial b = max 0 (min 1 ((b - BREADTH_LOW) / (BREADTH_HIGH - BREADTH_LOW)))
       \<and> risk_on_fraction h e
           = max 0 (min 1 (target_exposure_bear (profile e)
               + breadth_dial b * (target_exposure_bull (profile e) - target_exposure_bear (profile e))))
       \<and> (b = 1 / 2 \<longrightarrow> breadth_dial b = 1 / 2
             \<and> risk_on_fraction h e
                 = max 0 (min 1 ((target_exposure_bear (profile e) + target_exposure_bull (profile e)) / 2)))
       \<and> (b = 1 / 2 \<and> 0 \<le> target_exposure_bear (profile e) \<and> target_exposure_bear (profile e) \<le> 1
            \<and> 0 \<le> target_exposure_bull (profile e) \<and> target_exposure_bull (profile e) \<le> 1
          \<longrightarrow> risk_on_fraction h e
                = (target_exposure_bear (profile e) + target_exposure_bull (profile e)) / 2)"
proof -
  have d: "breadth_dial b = max 0 (min 1 ((b - BREADTH_LOW) / (BREADTH_HIGH - BREADTH_LOW)))"
    unfolding breadth_dial_def Let_def dial_const by (rule refl)
  have r: "risk_on_fraction h e
           = max 0 (min 1 (target_exposure_bear (profile e)
               + breadth_dial b * (target_exposure_bull (profile e) - target_exposure_bear (profile e))))"
    using assms by (simp add: risk_on_fraction_def Let_def)
  have half: "breadth_dial (1 / 2) = 1 / 2"
    unfolding breadth_dial_def Let_def dial_const
    by (simp add: BREADTH_HIGH_def BREADTH_LOW_def)
  have mid: "x + 1 / 2 * (y - x) = (x + y) / 2" for x y :: real
    by (simp add: field_simps)
  have c3: "b = 1 / 2 \<longrightarrow> breadth_dial b = 1 / 2
             \<and> risk_on_fraction h e
                 = max 0 (min 1 ((target_exposure_bear (profile e) + target_exposure_bull (profile e)) / 2))"
  proof
    assume b: "b = 1 / 2"
    show "breadth_dial b = 1 / 2
             \<and> risk_on_fraction h e
                 = max 0 (min 1 ((target_exposure_bear (profile e) + target_exposure_bull (profile e)) / 2))"
      unfolding r unfolding b half mid by simp
  qed
  have clamp_id: "0 \<le> x \<Longrightarrow> x \<le> 1 \<Longrightarrow> max 0 (min 1 x) = x" for x :: real
    by simp
  have c4: "b = 1 / 2 \<and> 0 \<le> target_exposure_bear (profile e) \<and> target_exposure_bear (profile e) \<le> 1
            \<and> 0 \<le> target_exposure_bull (profile e) \<and> target_exposure_bull (profile e) \<le> 1
          \<longrightarrow> risk_on_fraction h e
                = (target_exposure_bear (profile e) + target_exposure_bull (profile e)) / 2"
  proof
    assume a: "b = 1 / 2 \<and> 0 \<le> target_exposure_bear (profile e) \<and> target_exposure_bear (profile e) \<le> 1
            \<and> 0 \<le> target_exposure_bull (profile e) \<and> target_exposure_bull (profile e) \<le> 1"
    then have "risk_on_fraction h e
                 = max 0 (min 1 ((target_exposure_bear (profile e) + target_exposure_bull (profile e)) / 2))"
      using c3 by blast
    also have "\<dots> = (target_exposure_bear (profile e) + target_exposure_bull (profile e)) / 2"
      by (rule clamp_id) (use a in simp_all)
    finally show "risk_on_fraction h e
                = (target_exposure_bear (profile e) + target_exposure_bull (profile e)) / 2" .
  qed
  from d r c3 c4 show ?thesis by blast
qed

theorem C8_breadth_dial_witness:
  "should_rebalance_today (quiet_host 0 100\<lparr>obs_breadth_fraction := Some (1 / 2)\<rparr>) fresh_engine
   \<and> obs_breadth_fraction (quiet_host 0 100\<lparr>obs_breadth_fraction := Some (1 / 2)\<rparr>) = Some (1 / 2)
   \<and> risk_on_fraction (quiet_host 0 100\<lparr>obs_breadth_fraction := Some (1 / 2)\<rparr>) fresh_engine
       = 59 / 100"
proof -
  let ?h = "quiet_host 0 100\<lparr>obs_breadth_fraction := Some (1 / 2)\<rparr>"
  have a: "should_rebalance_today ?h fresh_engine"
    by (simp add: should_rebalance_today_def fresh_engine_def initialize_def)
  have b: "obs_breadth_fraction ?h = Some (1 / 2)"
    by simp
  have t: "0 \<le> target_exposure_bear (profile fresh_engine) \<and> target_exposure_bear (profile fresh_engine) \<le> 1
            \<and> 0 \<le> target_exposure_bull (profile fresh_engine) \<and> target_exposure_bull (profile fresh_engine) \<le> 1"
    by (simp add: fresh_engine_profile balanced_profile_def)
  from C8_breadth_dial_exposure [OF a b] t
  have "risk_on_fraction ?h fresh_engine
          = (target_exposure_bear (profile fresh_engine) + target_exposure_bull (profile fresh_engine)) / 2"
    by blast
  then have "risk_on_fraction ?h fresh_engine = 59 / 100"
    by (simp add: fresh_engine_profile balanced_profile_def)
  with a b show ?thesis by blast
qed

section \<open>Momentum\<close>

lemma mom_reference:
  assumes "0 < lb" and "lb < length closes"
  shows "mom closes last_close lb
         = (if closes ! (length closes - lb) \<le> 0 then None
            else Some (last_close / closes ! (length closes - lb) - 1))"
  using assms by (simp add: mom_def iloc_neg_def Let_def)

text \<open>
  Claim C4. The claim takes the reference close \<open>lookback\<close> bars before the last bar;
  \<open>mom\<close> reads \<open>close.iloc[-lb]\<close>, the bar \<open>lb - 1\<close> bars before the last. On a series
  of 277 closes that is flat at 10 except for a 5 on the bar 63 bars before the last,
  \<open>mom\<close> with \<open>lb = 63\<close> returns \<open>10 / 10 - 1 = 0\<close>, where the claim's formula gives
  \<open>10 / 5 - 1 = 1\<close>.
\<close>

theorem C4_mom_off_by_one:
  "length dip_closes = 277
   \<and> last dip_closes = 10
   \<and> dip_closes ! (length dip_closes - 1 - 63) = 5
   \<and> mom dip_closes (last dip_closes) 63 = Some 0
   \<and> last dip_closes / (dip_closes ! (length dip_closes - 1 - 63)) - 1 = 1"
proof -
  have len: "length dip_closes = 277" by (simp add: dip_closes_def)
  have l: "last dip_closes = 10" by (simp add: dip_closes_def)
  have ref: "dip_closes ! 213 = 5" by (simp add: dip_closes_def nth_append)
  have used: "dip_closes ! 214 = 10" by (simp add: dip_closes_def nth_append)
  have m: "mom dip_closes (last dip_closes) 63 = Some 0"
    using mom_reference [of 63 dip_closes "last dip_closes"] by (simp add: len l used)
  show ?thesis using len l ref m by simp
qed

section \<open>The bar cache\<close>

lemma py_lower_lower: "py_lower ''high'' = ''high''" "py_lower ''low'' = ''low''" "py_lower ''close'' = ''close''"
  by (simp_all add: py_lower_def lower_char_def)

lemma fresh_engine_cache: "cache_day fresh_engine = None" "hist_cache fresh_engine = Map.empty"
  by (simp_all add: fresh_engine_def initialize_def)

lemma normalize_three: "normalize_frame three_bar_frame = three_bar_frame"
  by (simp add: normalize_frame_def three_bar_frame_def py_lower_lower day_bar_def)

lemma normalize_two: "normalize_frame two_bar_frame = two_bar_frame"
  by (simp add: normalize_frame_def two_bar_frame_def py_lower_lower day_bar_def)

text \<open>
  Claim C3, as stated, fails: a fetched series of two bars whose last bar is dated today
  is cached and returned whole, with no-lookahead mode on.
\<close>

theorem C3_short_series_counterexample:
  "NO_LOOKAHEAD
   \<and> get_historical_prices two_bar_host (src_symbol two_bar_host ''SPY'') 230 = Some two_bar_frame
   \<and> bar_date (last (rows two_bar_frame)) \<ge> today two_bar_host
   \<and> fst (get_daily_df two_bar_host fresh_engine ''SPY'' 230) = Some two_bar_frame"
  by (simp add: NO_LOOKAHEAD_def two_bar_host_def two_bar_frame_def quiet_host_def day_bar_def
      get_daily_df_def fresh_engine_def initialize_def normalize_frame_def trim_lookahead_def
      py_lower_lower Let_def)

text \<open>
  Claim C3, amended. On a fetch (no cached frame for the key today) of a frame with a
  datetime index: when the series, after the rows with NaN are dropped, has at least three
  bars and its last bar is dated on or after the current trading date, the frame returned
  is the series without its last bar; when the series has fewer than three bars it is
  returned whole; and the frame returned is the frame cached under the key.
\<close>

theorem C3_no_lookahead_trim:
  assumes fetch: "get_historical_prices h (src_symbol h symbol) len = Some bars"
    and miss: "cache_day e \<noteq> Some (today h) \<or> hist_cache e (src_symbol h symbol, len) = None"
    and dt: "datetime_index bars"
  shows "(length (rows (normalize_frame bars)) \<ge> 3
            \<and> bar_date (last (rows (normalize_frame bars))) \<ge> today h
          \<longrightarrow> fst (get_daily_df h e symbol len)
                = Some ((normalize_frame bars)\<lparr>rows := butlast (rows (normalize_frame bars))\<rparr>))
       \<and> (length (rows (normalize_frame bars)) < 3
          \<longrightarrow> fst (get_daily_df h e symbol len) = Some (normalize_frame bars))
       \<and> hist_cache (snd (get_daily_df h e symbol len)) (src_symbol h symbol, len)
           = fst (get_daily_df h e symbol len)"
proof -
  have dtn: "datetime_index (normalize_frame bars)"
    using dt by (simp add: normalize_frame_def)
  show ?thesis
  proof (cases "cache_day e \<noteq> Some (today h)")
    case True
    then show ?thesis
      using fetch dtn by (simp add: get_daily_df_def Let_def trim_lookahead_def NO_LOOKAHEAD_def)
  next
    case False
    with miss have "hist_cache e (src_symbol h symbol, len) = None" by blast
    with False show ?thesis
      using fetch dtn by (simp add: get_daily_df_def Let_def trim_lookahead_def NO_LOOKAHEAD_def)
  qed
qed

theorem C3_no_lookahead_witness:
  "get_historical_prices three_bar_host (src_symbol three_bar_host ''SPY'') 230 = Some three_bar_frame
   \<and> cache_day fresh_engine \<noteq> Some (today three_bar_host)
   \<and> datetime_index three_bar_frame
   \<and> length (rows (normalize_frame three_bar_frame)) \<ge> 3
   \<and> bar_date (last (rows (normalize_frame three_bar_frame))) \<ge> today three_bar_host
   \<and> fst (get_daily_df three_bar_host fresh_engine ''SPY'' 230)
       = Some (three_bar_frame\<lparr>rows := [day_bar 8, day_bar 9]\<rparr>)
   \<and> hist_cache (snd (get_daily_df three_bar_host fresh_engine ''SPY'' 230))
         (src_symbol three_bar_host ''SPY'', 230)
       = Some (three_bar_frame\<lparr>rows := [day_bar 8, day_bar 9]\<rparr>)
   \<and> length (rows (normalize_frame two_bar_frame)) < 3
   \<and> fst (get_daily_df two_bar_host fresh_engine ''SPY'' 230) = Some two_bar_frame"
proof -
  have f3: "get_historical_prices three_bar_host (src_symbol three_bar_host ''SPY'') 230
            = Some three_bar_frame"
    by (simp add: three_bar_host_def quiet_host_def)
  have m3: "cache_day fresh_engine \<noteq> Some (today three_bar_host)
            \<or> hist_cache fresh_engine (src_symbol three_bar_host ''SPY'', 230) = None"
    by (simp add: fresh_engine_cache)
  have d3: "datetime_index three_bar_frame"
    by (simp add: three_bar_frame_def)
  have l3: "length (rows (normalize_frame three_bar_frame)) \<ge> 3
            \<and> bar_date (last (rows (normalize_frame three_bar_frame))) \<ge> today three_bar_host"
    by (simp add: normalize_three) (simp add: three_bar_frame_def day_bar_def three_bar_host_def quiet_host_def)
  have b3: "butlast (rows three_bar_frame) = [day_bar 8, day_bar 9]"
    by (simp add: three_bar_frame_def)
  have f2: "get_historical_prices two_bar_host (src_symbol two_bar_host ''SPY'') 230
            = Some two_bar_frame"
    by (simp add: two_bar_host_def quiet_host_def)
  have m2: "cache_day fresh_engine \<noteq> Some (today two_bar_host)
            \<or> hist_cache fresh_engine (src_symbol two_bar_host ''SPY'', 230) = None"
    by (simp add: fresh_engine_cache)
  have d2: "datetime_index two_bar_frame"
    by (simp add: two_bar_frame_def)
  have l2: "length (rows (normalize_frame two_bar_frame)) < 3"
    by (simp add: normalize_two) (simp add: two_bar_frame_def)
  from C3_no_lookahead_trim [OF f3 m3 d3] l3
  have r3: "fst (get_daily_df three_bar_host fresh_engine ''SPY'' 230)
              = Some (three_bar_frame\<lparr>rows := [day_bar 8, day_bar 9]\<rparr>)
          \<and> hist_cache (snd (get_daily_df three_bar_host fresh_engine ''SPY'' 230))
               (src_symbol three_bar_host ''SPY'', 230)
              = Some (three_bar_frame\<lparr>rows := [day_bar 8, day_bar 9]\<rparr>)"
    by (simp add: b3 normalize_three)
  from C3_no_lookahead_trim [OF f2 m2 d2] l2
  have r2: "fst (get_daily_df two_bar_host fresh_engine ''SPY'' 230) = Some two_bar_frame"
    by (simp add: normalize_two)
  have c: "cache_day fresh_engine \<noteq> Some (today three_bar_host)"
    by (simp add: fresh_engine_cache)
  from f3 c d3 l3 r3 l2 r2 show ?thesis by blast
qed

section \<open>ATR\<close>







section \<open>The selector\<close>

lemma first_pass_append:
  "\<exists>picked. first_pass sm mp cap xs sc sel = sel @ picked \<and> subseq picked xs"
proof (induction xs arbitrary: sc sel)
  case Nil
  then show ?case by simp
next
  case (Cons x xs)
  show ?case
  proof (cases "count_get sc (sector_of sm x) \<ge> cap")
    case True
    from Cons.IH [of sc sel] obtain picked where
      "first_pass sm mp cap xs sc sel = sel @ picked" "subseq picked xs" by blast
    with True show ?thesis by (auto simp add: Let_def intro: subseq_Cons')
  next
    case False
    show ?thesis
    proof (cases "int (length (sel @ [x])) \<ge> mp")
      case True
      with False show ?thesis by (auto simp add: Let_def intro!: exI [of _ "[x]"])
    next
      case stop: False
      from Cons.IH [of "sc(sector_of sm x \<mapsto> count_get sc (sector_of sm x) + 1)" "sel @ [x]"]
      obtain picked where
        p: "first_pass sm mp cap xs (sc(sector_of sm x \<mapsto> count_get sc (sector_of sm x) + 1)) (sel @ [x])
            = (sel @ [x]) @ picked" "subseq picked xs" by blast
      from False stop p show ?thesis
        by (auto simp add: Let_def intro!: exI [of _ "x # picked"])
    qed
  qed
qed

lemma first_pass_length:
  "int (length sel) < mp \<Longrightarrow> int (length (first_pass sm mp cap xs sc sel)) \<le> mp"
proof (induction xs arbitrary: sc sel)
  case Nil
  then show ?case by simp
next
  case (Cons x xs)
  then show ?case by (auto simp add: Let_def)
qed

lemma first_pass_cap:
  assumes "\<forall>sec. count_get sc sec = sector_occurrences sm sec sel"
    and "\<forall>sec. sector_occurrences sm sec sel \<le> cap"
  shows "sector_occurrences sm sec (first_pass sm mp cap xs sc sel) \<le> cap"
  using assms
proof (induction xs arbitrary: sc sel)
  case Nil
  then show ?case by simp
next
  case (Cons x xs)
  show ?case
  proof (cases "count_get sc (sector_of sm x) \<ge> cap")
    case True
    then show ?thesis using Cons by (simp add: Let_def)
  next
    case False
    let ?sc = "sc(sector_of sm x \<mapsto> count_get sc (sector_of sm x) + 1)"
    have a: "\<forall>sec. count_get ?sc sec = sector_occurrences sm sec (sel @ [x])"
      using Cons.prems(1) by (auto simp add: count_get_def sector_occurrences_def)
    have b: "\<forall>sec. sector_occurrences sm sec (sel @ [x]) \<le> cap"
    proof
      fix sec
      show "sector_occurrences sm sec (sel @ [x]) \<le> cap"
      proof (cases "sector_of sm x = sec")
        case True
        with False Cons.prems(1) show ?thesis
          by (auto simp add: sector_occurrences_def)
      next
        case False
        with Cons.prems(2) show ?thesis
          by (auto simp add: sector_occurrences_def)
      qed
    qed
    show ?thesis
    proof (cases "int (length (sel @ [x])) \<ge> mp")
      case True
      with False b show ?thesis by (simp add: Let_def)
    next
      case stop: False
      have ih: "sector_occurrences sm sec (first_pass sm mp cap xs ?sc (sel @ [x])) \<le> cap"
        by (rule Cons.IH [OF a b])
      have "first_pass sm mp cap (x # xs) sc sel = first_pass sm mp cap xs ?sc (sel @ [x])"
        using False stop by (simp add: Let_def)
      with ih show ?thesis by simp
    qed
  qed
qed

lemma fallback_pass_append:
  "\<exists>fb. fallback_pass mp xs sel = sel @ fb \<and> subseq fb xs \<and> distinct fb \<and> set fb \<inter> set sel = {}"
proof (induction xs arbitrary: sel)
  case Nil
  then show ?case by simp
next
  case (Cons x xs)
  show ?case
  proof (cases "x \<in> set sel")
    case True
    from Cons.IH [of sel] obtain fb where
      "fallback_pass mp xs sel = sel @ fb" "subseq fb xs" "distinct fb" "set fb \<inter> set sel = {}"
      by blast
    with True show ?thesis by (auto intro: subseq_Cons')
  next
    case False
    show ?thesis
    proof (cases "int (length (sel @ [x])) \<ge> mp")
      case True
      with False show ?thesis by (auto simp add: Let_def intro!: exI [of _ "[x]"])
    next
      case stop: False
      from Cons.IH [of "sel @ [x]"] obtain fb where
        p: "fallback_pass mp xs (sel @ [x]) = (sel @ [x]) @ fb" "subseq fb xs" "distinct fb"
           "set fb \<inter> set (sel @ [x]) = {}"
        by blast
      from False stop p show ?thesis
        by (auto simp add: Let_def intro!: exI [of _ "x # fb"])
    qed
  qed
qed

lemma fallback_pass_length:
  "int (length sel) < mp \<Longrightarrow> int (length (fallback_pass mp xs sel)) \<le> mp"
proof (induction xs arbitrary: sel)
  case Nil
  then show ?case by simp
next
  case (Cons x xs)
  then show ?case by (auto simp add: Let_def)
qed

lemma py_take_prefix: "0 \<le> n \<Longrightarrow> prefix (py_take n xs) xs \<and> int (length (py_take n xs)) \<le> n"
  by (simp add: py_take_def take_is_prefix)

lemma capped_engine_fields:
  "max_positions (profile capped_engine) = 3"
  "max_sector_positions (profile capped_engine) = 1"
  "sector_by_symbol capped_engine = [(''A'', ''Tech''), (''B'', ''Tech''), (''C'', ''Fin'')]"
  by (simp_all add: capped_engine_def)

lemma capped_first_pass:
  "first_pass [(''A'', ''Tech''), (''B'', ''Tech''), (''C'', ''Fin'')] 3 1 [''A'', ''B'', ''C'']
     Map.empty [] = [''A'', ''C'']"
proof -
  have s: "sector_of [(''A'', ''Tech''), (''B'', ''Tech''), (''C'', ''Fin'')] ''A'' = ''Tech''"
    "sector_of [(''A'', ''Tech''), (''B'', ''Tech''), (''C'', ''Fin'')] ''B'' = ''Tech''"
    "sector_of [(''A'', ''Tech''), (''B'', ''Tech''), (''C'', ''Fin'')] ''C'' = ''Fin''"
    by (simp_all add: sector_of_def)
  show ?thesis
    by (simp add: s count_get_def Let_def)
qed

lemma capped_select:
  "select_with_sector_caps capped_engine [''A'', ''B'', ''C''] = [''A'', ''C'', ''B'']"
proof -
  have "select_with_sector_caps capped_engine [''A'', ''B'', ''C'']
        = fallback_pass 3 [''A'', ''B'', ''C''] [''A'', ''C'']"
    unfolding select_with_sector_caps_def Let_def capped_engine_fields capped_first_pass
    by simp
  then show ?thesis by simp
qed

text \<open>
  Claim C7, as stated, fails: the output does not preserve rank order. With three slots, a
  cap of one position per sector and the ranked list A, B, C where A and B share a sector,
  the first pass takes A and C and the fallback pass appends B, so B follows C.
\<close>

theorem C7_rank_order_counterexample:
  "1 \<le> max_positions (profile capped_engine)
   \<and> 1 \<le> max_sector_positions (profile capped_engine)
   \<and> select_with_sector_caps capped_engine [''A'', ''B'', ''C''] = [''A'', ''C'', ''B'']
   \<and> \<not> subseq [''A'', ''C'', ''B''] [''A'', ''B'', ''C'']"
  by (simp add: capped_select capped_engine_fields subseq_Cons2_neq)

text \<open>
  Claim C7, amended. For \<open>max_positions \<ge> 1\<close> and \<open>max_sector_positions \<ge> 1\<close> the output
  has at most \<open>max_positions\<close> symbols. Without a ranked list or a sector map it is a
  prefix of the ranked list. Otherwise it is the picks of the sector-capped pass followed by
  the picks of the fallback pass: each of the two is in rank order, no sector occurs more
  than \<open>max_sector_positions\<close> times among the first, the fallback's picks are distinct and
  not among the first, and the fallback adds something only when the capped pass accepted
  fewer than \<open>max_positions\<close> symbols.
\<close>

theorem C7_selector_two_passes:
  assumes mp: "max_positions (profile e) \<ge> 1" and cap: "max_sector_positions (profile e) \<ge> 1"
  shows "int (length (select_with_sector_caps e ranked)) \<le> max_positions (profile e)
       \<and> (ranked = [] \<or> sector_by_symbol e = []
            \<longrightarrow> prefix (select_with_sector_caps e ranked) ranked)
       \<and> (ranked \<noteq> [] \<and> sector_by_symbol e \<noteq> []
            \<longrightarrow> (\<exists>fb. select_with_sector_caps e ranked
                        = first_pass (sector_by_symbol e) (max_positions (profile e))
                            (max_sector_positions (profile e)) ranked Map.empty [] @ fb
                    \<and> subseq (first_pass (sector_by_symbol e) (max_positions (profile e))
                                (max_sector_positions (profile e)) ranked Map.empty []) ranked
                    \<and> subseq fb ranked
                    \<and> (\<forall>sec. sector_occurrences (sector_by_symbol e) sec
                                (first_pass (sector_by_symbol e) (max_positions (profile e))
                                   (max_sector_positions (profile e)) ranked Map.empty [])
                              \<le> max_sector_positions (profile e))
                    \<and> distinct fb
                    \<and> set fb \<inter> set (first_pass (sector_by_symbol e) (max_positions (profile e))
                                         (max_sector_positions (profile e)) ranked Map.empty []) = {}
                    \<and> (fb \<noteq> [] \<longrightarrow> int (length (first_pass (sector_by_symbol e)
                                         (max_positions (profile e))
                                         (max_sector_positions (profile e)) ranked Map.empty []))
                                      < max_positions (profile e))))"
proof -
  let ?sm = "sector_by_symbol e"
  let ?mp = "max_positions (profile e)"
  let ?cap = "max_sector_positions (profile e)"
  let ?fp = "first_pass ?sm ?mp ?cap ranked Map.empty []"
  let ?out = "select_with_sector_caps e ranked"
  have fp_len: "int (length ?fp) \<le> ?mp"
    using mp by (intro first_pass_length) simp
  have fp_sub: "subseq ?fp ranked"
    using first_pass_append [of ?sm ?mp ?cap ranked Map.empty "[]"] by auto
  have fp_cap: "\<forall>sec. sector_occurrences ?sm sec ?fp \<le> ?cap"
  proof
    fix sec
    show "sector_occurrences ?sm sec ?fp \<le> ?cap"
      using cap by (intro first_pass_cap) (simp_all add: count_get_def sector_occurrences_def)
  qed
  have len: "int (length ?out) \<le> ?mp"
  proof (cases "ranked = [] \<or> ?sm = []")
    case True
    then show ?thesis
      using mp py_take_prefix [of ?mp ranked] by (auto simp add: select_with_sector_caps_def Let_def)
  next
    case False
    show ?thesis
    proof (cases "int (length ?fp) < ?mp")
      case True
      then have "?out = fallback_pass ?mp ranked ?fp"
        using False by (simp add: select_with_sector_caps_def Let_def)
      with fallback_pass_length [OF True] show ?thesis by simp
    next
      case full: False
      then have "?out = ?fp"
        using False by (simp add: select_with_sector_caps_def Let_def)
      with fp_len show ?thesis by simp
    qed
  qed
  have pre: "ranked = [] \<or> ?sm = [] \<longrightarrow> prefix ?out ranked"
    using mp py_take_prefix [of ?mp ranked] by (auto simp add: select_with_sector_caps_def Let_def)
  have two: "ranked \<noteq> [] \<and> ?sm \<noteq> []
            \<longrightarrow> (\<exists>fb. ?out = ?fp @ fb \<and> subseq ?fp ranked \<and> subseq fb ranked
                    \<and> (\<forall>sec. sector_occurrences ?sm sec ?fp \<le> ?cap)
                    \<and> distinct fb \<and> set fb \<inter> set ?fp = {}
                    \<and> (fb \<noteq> [] \<longrightarrow> int (length ?fp) < ?mp))"
  proof
    assume ne: "ranked \<noteq> [] \<and> ?sm \<noteq> []"
    show "\<exists>fb. ?out = ?fp @ fb \<and> subseq ?fp ranked \<and> subseq fb ranked
                    \<and> (\<forall>sec. sector_occurrences ?sm sec ?fp \<le> ?cap)
                    \<and> distinct fb \<and> set fb \<inter> set ?fp = {}
                    \<and> (fb \<noteq> [] \<longrightarrow> int (length ?fp) < ?mp)"
    proof (cases "int (length ?fp) < ?mp")
      case True
      then have o: "?out = fallback_pass ?mp ranked ?fp"
        using ne by (simp add: select_with_sector_caps_def Let_def)
      from fallback_pass_append [of ?mp ranked ?fp] obtain fb where
        fb: "fallback_pass ?mp ranked ?fp = ?fp @ fb" "subseq fb ranked" "distinct fb"
            "set fb \<inter> set ?fp = {}" by blast
      from o fb fp_sub fp_cap True show ?thesis by (intro exI [of _ fb]) simp
    next
      case False
      then have o: "?out = ?fp"
        using ne by (simp add: select_with_sector_caps_def Let_def)
      from o fp_sub fp_cap show ?thesis by (intro exI [of _ "[]"]) simp
    qed
  qed
  from len pre two show ?thesis by blast
qed

theorem C7_selector_witness:
  "1 \<le> max_positions (profile capped_engine)
   \<and> 1 \<le> max_sector_positions (profile capped_engine)
   \<and> [''A'', ''B'', ''C''] \<noteq> []
   \<and> sector_by_symbol capped_engine \<noteq> []
   \<and> int (length (select_with_sector_caps capped_engine [''A'', ''B'', ''C''])) \<le> 3
   \<and> sector_occurrences (sector_by_symbol capped_engine) ''Tech''
        (first_pass (sector_by_symbol capped_engine) 3 1 [''A'', ''B'', ''C''] Map.empty []) \<le> 1"
proof -
  have a: "1 \<le> max_positions (profile capped_engine)"
    and b: "1 \<le> max_sector_positions (profile capped_engine)"
    and c: "sector_by_symbol capped_engine \<noteq> []"
    by (simp_all add: capped_engine_fields)
  have d: "[''A'', ''B'', ''C''] \<noteq> ([] :: string list)" by simp
  from C7_selector_two_passes [OF a b, of "[''A'', ''B'', ''C'']"] c d
  have "int (length (select_with_sector_caps capped_engine [''A'', ''B'', ''C'']))
          \<le> max_positions (profile capped_engine)
        \<and> sector_occurrences (sector_by_symbol capped_engine) ''Tech''
            (first_pass (sector_by_symbol capped_engine) (max_positions (profile capped_engine))
               (max_sector_positions (profile capped_engine)) [''A'', ''B'', ''C''] Map.empty [])
          \<le> max_sector_positions (profile capped_engine)"
    by blast
  then have "int (length (select_with_sector_caps capped_engine [''A'', ''B'', ''C''])) \<le> 3
        \<and> sector_occurrences (sector_by_symbol capped_engine) ''Tech''
            (first_pass (sector_by_symbol capped_engine) 3 1 [''A'', ''B'', ''C''] Map.empty []) \<le> 1"
    by (simp only: capped_engine_fields(1,2))
  with a b c d show ?thesis by blast
qed

section \<open>The trailing stop\<close>

lemma trail_position_other:
  assumes "src_symbol h s \<noteq> src_symbol h (fst pos)"
  shows "orders_for (src_symbol h s) (snd (trail_position h prof pos hc)) = []
       \<and> fst (trail_position h prof pos hc) s = hc s"
proof -
  from assms have ne: "s \<noteq> fst pos" by auto
  show ?thesis
    using assms ne
    by (simp add: trail_position_def orders_for_def Let_def split: option.split)
qed

lemma trailing_stops_others:
  assumes "src_symbol h s \<notin> (\<lambda>p. src_symbol h (fst p)) ` set ps"
  shows "orders_for (src_symbol h s) (snd (apply_trailing_stops h prof ps hc)) = []
       \<and> fst (apply_trailing_stops h prof ps hc) s = hc s"
  using assms
proof (induction ps arbitrary: hc)
  case Nil
  then show ?case by (simp add: orders_for_def)
next
  case (Cons pos ps)
  from Cons.prems have a: "src_symbol h s \<noteq> src_symbol h (fst pos)"
    and b: "src_symbol h s \<notin> (\<lambda>p. src_symbol h (fst p)) ` set ps" by auto
  obtain hc1 os1 where t: "trail_position h prof pos hc = (hc1, os1)" by force
  obtain hc2 os2 where r: "apply_trailing_stops h prof ps hc1 = (hc2, os2)" by force
  from trail_position_other [OF a, of prof hc] t
  have t1: "orders_for (src_symbol h s) os1 = []" "hc1 s = hc s" by simp_all
  from Cons.IH [OF b, of hc1] r
  have r1: "orders_for (src_symbol h s) os2 = []" "hc2 s = hc1 s" by simp_all
  from t r t1 r1 show ?case by (simp add: orders_for_def)
qed

lemma trail_position_self:
  assumes "0 < qty" and "get_last_price h (src_symbol h s) = Some px" and "0 < px"
    and "obs_atr h s = Some a"
  shows "trail_position h prof (s, qty) hc
         = (let running_high = max (case hc s of None \<Rightarrow> px | Some v \<Rightarrow> v) px
            in if px \<le> running_high - atr_mult_trail prof * a
               then (hc(s := None), [Order (src_symbol h s) \<bar>qty\<bar> Sell])
               else (hc(s \<mapsto> running_high), []))"
  using assms
  by (auto simp add: trail_position_def Let_def max_def split: option.split)

text \<open>
  Claim C2, amended. Take a pass of \<open>_apply_trailing_stops\<close> over positions with pairwise
  different source symbols, and in it a position of positive quantity with a last price
  \<open>px > 0\<close> and an ATR \<open>a\<close>. Let the running high be the larger of the tracked high
  (the price when none is tracked) and the price. While the price is strictly above
  \<open>running high - atr_mult_trail * a\<close> the pass submits no order for the symbol and tracks
  the running high. When the price is at or below that level the pass submits exactly one
  order for the symbol, a sell of the full quantity, and removes the symbol from the tracked
  highs.
\<close>

theorem C2_trailing_stop_fires_at_or_below:
  assumes dist: "distinct (map (\<lambda>p. src_symbol h (fst p)) ps)"
    and mem: "(s, qty) \<in> set ps"
    and qty: "0 < qty"
    and price: "get_last_price h (src_symbol h s) = Some px"
    and px: "0 < px"
    and atr: "obs_atr h s = Some a"
  shows "(max (case hc s of None \<Rightarrow> px | Some v \<Rightarrow> v) px - atr_mult_trail prof * a < px
          \<longrightarrow> orders_for (src_symbol h s) (snd (apply_trailing_stops h prof ps hc)) = []
              \<and> fst (apply_trailing_stops h prof ps hc) s
                  = Some (max (case hc s of None \<Rightarrow> px | Some v \<Rightarrow> v) px))
       \<and> (px \<le> max (case hc s of None \<Rightarrow> px | Some v \<Rightarrow> v) px - atr_mult_trail prof * a
          \<longrightarrow> orders_for (src_symbol h s) (snd (apply_trailing_stops h prof ps hc))
                = [Order (src_symbol h s) \<bar>qty\<bar> Sell]
              \<and> fst (apply_trailing_stops h prof ps hc) s = None)"
  using dist mem
proof (induction ps arbitrary: hc)
  case Nil
  then show ?case by simp
next
  case (Cons pos ps)
  obtain hc1 os1 where t: "trail_position h prof pos hc = (hc1, os1)" by force
  obtain hc2 os2 where r: "apply_trailing_stops h prof ps hc1 = (hc2, os2)" by force
  have whole: "apply_trailing_stops h prof (pos # ps) hc = (hc2, os1 @ os2)"
    using t r by simp
  have notin: "src_symbol h (fst pos) \<notin> (\<lambda>p. src_symbol h (fst p)) ` set ps"
    and dist': "distinct (map (\<lambda>p. src_symbol h (fst p)) ps)"
    using Cons.prems(1) by simp_all
  let ?H = "max (case hc s of None \<Rightarrow> px | Some v \<Rightarrow> v) px"
  show ?case
  proof (cases "pos = (s, qty)")
    case True
    with notin have "src_symbol h s \<notin> (\<lambda>p. src_symbol h (fst p)) ` set ps" by simp
    from trailing_stops_others [OF this, of prof hc1] r
    have rest: "orders_for (src_symbol h s) os2 = []" "hc2 s = hc1 s" by simp_all
    from trail_position_self [OF qty price px atr, of prof hc] t True
    have self: "(hc1, os1)
         = (if px \<le> ?H - atr_mult_trail prof * a
            then (hc(s := None), [Order (src_symbol h s) \<bar>qty\<bar> Sell])
            else (hc(s \<mapsto> ?H), []))"
      by (simp add: Let_def)
    show ?thesis
    proof (cases "px \<le> ?H - atr_mult_trail prof * a")
      case fire: True
      with self have "hc1 = hc(s := None)" "os1 = [Order (src_symbol h s) \<bar>qty\<bar> Sell]"
        by simp_all
      with rest fire show ?thesis
        unfolding whole by (simp add: orders_for_def)
    next
      case hold: False
      with self have "hc1 = hc(s \<mapsto> ?H)" "os1 = []" by simp_all
      with rest hold show ?thesis
        unfolding whole by (simp add: orders_for_def)
    qed
  next
    case False
    with Cons.prems(2) have mem': "(s, qty) \<in> set ps" by simp
    then have "src_symbol h s \<in> (\<lambda>p. src_symbol h (fst p)) ` set ps" by force
    with notin have ne: "src_symbol h s \<noteq> src_symbol h (fst pos)" by metis
    from trail_position_other [OF ne, of prof hc] t
    have head: "orders_for (src_symbol h s) os1 = []" "hc1 s = hc s" by simp_all
    from Cons.IH [OF dist' mem', of hc1] r head(2)
    have ih: "(?H - atr_mult_trail prof * a < px
          \<longrightarrow> orders_for (src_symbol h s) os2 = [] \<and> hc2 s = Some ?H)
       \<and> (px \<le> ?H - atr_mult_trail prof * a
          \<longrightarrow> orders_for (src_symbol h s) os2 = [Order (src_symbol h s) \<bar>qty\<bar> Sell]
              \<and> hc2 s = None)"
      by simp
    have split: "orders_for (src_symbol h s) (os1 @ os2) = orders_for (src_symbol h s) os2"
      using head(1) by (simp add: orders_for_def)
    show ?thesis
      unfolding whole using ih split by simp
  qed
qed

lemma stop_src: "src_symbol stop_host ''A'' = ''A''"
  by (simp add: src_symbol_def stop_host_def quiet_host_def py_upper_def upper_char_def
      py_strip_def is_space_def)

lemma stop_host_fires:
  "snd (apply_trailing_stops stop_host stop_profile (get_positions stop_host) [''A'' \<mapsto> 10])
     = [Order ''A'' 5 Sell]"
proof -
  have p: "get_positions stop_host = [(''A'', 5)]"
    "get_last_price stop_host ''A'' = Some 8" "obs_atr stop_host ''A'' = Some 1"
    by (simp_all add: stop_host_def quiet_host_def)
  have "trail_position stop_host stop_profile (''A'', 5) [''A'' \<mapsto> 10]
        = (Map.empty, [Order ''A'' 5 Sell])"
    by (simp add: trail_position_def stop_src p stop_profile_def Let_def)
  then show ?thesis by (simp add: p)
qed

text \<open>
  Claim C2, as stated, fails at the stop level itself: with the tracked high 10, the ATR 1
  and the multiple 2, the price 8 is at (hence at or above) \<open>10 - 2 * 1\<close>, and the
  position is sold.
\<close>

theorem C2_price_at_stop_counterexample:
  "get_positions stop_host = [(''A'', 5)]
   \<and> get_last_price stop_host (src_symbol stop_host ''A'') = Some 8
   \<and> obs_atr stop_host ''A'' = Some 1
   \<and> (8::real) \<ge> 10 - atr_mult_trail stop_profile * 1
   \<and> snd (apply_trailing_stops stop_host stop_profile (get_positions stop_host) [''A'' \<mapsto> 10])
       = [Order ''A'' 5 Sell]"
proof -
  have p: "get_positions stop_host = [(''A'', 5)]"
    "get_last_price stop_host ''A'' = Some 8" "obs_atr stop_host ''A'' = Some 1"
    by (simp_all add: stop_host_def quiet_host_def)
  have q: "(8::real) \<ge> 10 - atr_mult_trail stop_profile * 1"
    by (simp add: stop_profile_def)
  from p q stop_host_fires show ?thesis
    by (simp only: stop_src)
qed

theorem C2_trailing_stop_witness:
  "distinct (map (\<lambda>p. src_symbol stop_host (fst p)) (get_positions stop_host))
   \<and> (''A'', 5) \<in> set (get_positions stop_host)
   \<and> get_last_price stop_host (src_symbol stop_host ''A'') = Some 8
   \<and> obs_atr stop_host ''A'' = Some 1
   \<and> orders_for ''A''
        (snd (apply_trailing_stops stop_host stop_profile (get_positions stop_host) [''A'' \<mapsto> 10]))
       = [Order ''A'' 5 Sell]
   \<and> fst (apply_trailing_stops stop_host stop_profile (get_positions stop_host) [''A'' \<mapsto> 10]) ''A''
       = None
   \<and> orders_for ''A''
        (snd (apply_trailing_stops stop_host stop_profile (get_positions stop_host) [''A'' \<mapsto> 9]))
       = []
   \<and> fst (apply_trailing_stops stop_host stop_profile (get_positions stop_host) [''A'' \<mapsto> 9]) ''A''
       = Some 9"
proof -
  have d: "distinct (map (\<lambda>p. src_symbol stop_host (fst p)) (get_positions stop_host))"
    and m: "(''A'', 5) \<in> set (get_positions stop_host)"
    and p: "get_last_price stop_host (src_symbol stop_host ''A'') = Some 8"
    and a: "obs_atr stop_host ''A'' = Some 1"
    by (simp_all add: stop_src) (simp_all add: stop_host_def quiet_host_def)
  have q: "(0::real) < 5" and x: "(0::real) < 8" by simp_all
  from C2_trailing_stop_fires_at_or_below [OF d m q p x a, of "[''A'' \<mapsto> 10]" stop_profile]
  have fire: "orders_for ''A''
        (snd (apply_trailing_stops stop_host stop_profile (get_positions stop_host) [''A'' \<mapsto> 10]))
       = [Order ''A'' 5 Sell]
     \<and> fst (apply_trailing_stops stop_host stop_profile (get_positions stop_host) [''A'' \<mapsto> 10]) ''A''
       = None"
    by (simp add: stop_src stop_profile_def)
  from C2_trailing_stop_fires_at_or_below [OF d m q p x a, of "[''A'' \<mapsto> 9]" stop_profile]
  have hold: "orders_for ''A''
        (snd (apply_trailing_stops stop_host stop_profile (get_positions stop_host) [''A'' \<mapsto> 9]))
       = []
     \<and> fst (apply_trailing_stops stop_host stop_profile (get_positions stop_host) [''A'' \<mapsto> 9]) ''A''
       = Some 9"
    by (simp add: stop_src stop_profile_def)
  from d m p a fire hold show ?thesis by blast
qed

section \<open>The rebalance of an empty selection\<close>

lemma sell_unselected_orders:
  assumes "(s, qty) \<in> set ps" and "qty \<noteq> 0" and "s \<notin> set selected"
  shows "Order (src_symbol h s) \<bar>qty\<bar> (closing_side qty)
           \<in> set (snd (sell_unselected h selected ps hc))"
  using assms
proof (induction ps arbitrary: hc)
  case Nil
  then show ?case by simp
next
  case (Cons pos ps)
  obtain s' q' where pos: "pos = (s', q')" by force
  show ?case
  proof (cases "pos = (s, qty)")
    case True
    with Cons.prems pos show ?thesis
      by (simp add: closing_side_def split_beta)
  next
    case False
    with Cons.prems have "(s, qty) \<in> set ps" by simp
    from Cons.IH [OF this Cons.prems(2,3)] pos show ?thesis
      by (simp add: split_beta)
  qed
qed

lemma rebalance_orders:
  assumes "selected \<noteq> []"
  shows "set (snd (sell_unselected h selected (get_positions h) (highest_close e)))
           \<subseteq> set (snd (rebalance h e selected exposure))"
  using assms
  by (simp add: rebalance_def Let_def split_beta)

text \<open>
  Claim C10. With an empty selection \<open>_rebalance\<close> submits no order and returns the engine
  unchanged, so no open position is sold. With a non-empty selection, for every position of
  non-zero quantity whose symbol is not selected, the order closing it in full is among the
  orders submitted.
\<close>

theorem C10_empty_selection_is_a_no_op:
  "rebalance h e [] exposure = (e, [])
   \<and> (selected \<noteq> [] \<and> (s, qty) \<in> set (get_positions h) \<and> qty \<noteq> 0 \<and> s \<notin> set selected
        \<longrightarrow> Order (src_symbol h s) \<bar>qty\<bar> (closing_side qty)
              \<in> set (snd (rebalance h e selected exposure)))"
proof -
  have a: "rebalance h e [] exposure = (e, [])"
    by (simp add: rebalance_def)
  have b: "selected \<noteq> [] \<and> (s, qty) \<in> set (get_positions h) \<and> qty \<noteq> 0 \<and> s \<notin> set selected
        \<longrightarrow> Order (src_symbol h s) \<bar>qty\<bar> (closing_side qty)
              \<in> set (snd (rebalance h e selected exposure))"
  proof
    assume h: "selected \<noteq> [] \<and> (s, qty) \<in> set (get_positions h) \<and> qty \<noteq> 0 \<and> s \<notin> set selected"
    then have "Order (src_symbol h s) \<bar>qty\<bar> (closing_side qty)
           \<in> set (snd (sell_unselected h selected (get_positions h) (highest_close e)))"
      by (intro sell_unselected_orders) simp_all
    with rebalance_orders [of selected h e exposure] h
    show "Order (src_symbol h s) \<bar>qty\<bar> (closing_side qty)
              \<in> set (snd (rebalance h e selected exposure))"
      by blast
  qed
  from a b show ?thesis by blast
qed

lemma holding_src: "src_symbol holding_host ''A'' = ''A''"
  by (simp add: src_symbol_def holding_host_def quiet_host_def py_upper_def upper_char_def
      py_strip_def is_space_def)

theorem C10_empty_selection_witness:
  "rebalance holding_host fresh_engine [] 1 = (fresh_engine, [])
   \<and> [''B''] \<noteq> []
   \<and> (''A'', 5) \<in> set (get_positions holding_host)
   \<and> (5::real) \<noteq> 0
   \<and> ''A'' \<notin> set [''B'']
   \<and> Order ''A'' 5 Sell \<in> set (snd (rebalance holding_host fresh_engine [''B''] 1))"
proof -
  have p: "(''A'', 5) \<in> set (get_positions holding_host)"
    by (simp add: holding_host_def quiet_host_def)
  have n: "[''B''] \<noteq> ([] :: string list)" "(5::real) \<noteq> 0" "''A'' \<notin> set [''B'']"
    by simp_all
  from C10_empty_selection_is_a_no_op [of holding_host fresh_engine 1 "[''B'']" "''A''" 5] p n
  have "rebalance holding_host fresh_engine [] 1 = (fresh_engine, [])
      \<and> Order (src_symbol holding_host ''A'') \<bar>5\<bar> (closing_side 5)
          \<in> set (snd (rebalance holding_host fresh_engine [''B''] 1))"
    by blast
  then have "rebalance holding_host fresh_engine [] 1 = (fresh_engine, [])
      \<and> Order ''A'' 5 Sell \<in> set (snd (rebalance holding_host fresh_engine [''B''] 1))"
    by (simp add: holding_src closing_side_def)
  with p n show ?thesis by blast
qed

section \<open>Risk sizing\<close>

lemma update_member:
  "(k', v') \<in> set (AList.update k v al) \<Longrightarrow> (k', v') = (k, v) \<or> (k', v') \<in> set al"
  by (induction al) (auto split: if_splits)

lemma build_vols_positive:
  assumes "\<forall>(k, v) \<in> set acc. 0 < v"
  shows "\<forall>(k, v) \<in> set (build_vols h sel acc). 0 < v"
  using assms
proof (induction sel arbitrary: acc)
  case Nil
  then show ?case by simp
next
  case (Cons s sel)
  show ?case
  proof (cases "obs_realized_vol h s")
    case None
    with Cons show ?thesis by simp
  next
    case (Some v)
    show ?thesis
    proof (cases "0 < v")
      case True
      have "\<forall>(k, v') \<in> set (AList.update s v acc). 0 < v'"
        using Cons.prems True by (auto dest: update_member)
      from Cons.IH [OF this] Some True show ?thesis by simp
    next
      case False
      with Cons Some show ?thesis by simp
    qed
  qed
qed

lemma sum_list_pos_nonempty:
  fixes xs :: "real list"
  assumes "xs \<noteq> []" and "\<forall>x \<in> set xs. 0 < x"
  shows "0 < sum_list xs"
  using assms by (induction xs) (auto intro: add_pos_nonneg sum_list_nonneg less_imp_le)

lemma sum_list_scale: "sum_list (map (\<lambda>x. x * c) xs) = sum_list xs * (c::real)"
  by (induction xs) (simp_all add: distrib_right)

lemma size_positions_step:
  "size_positions h prof pv ex ((s, w) # ws) = size_positions h prof pv ex ws
   \<or> (\<exists>px a. get_last_price h (src_symbol h s) = Some px \<and> 0 < px \<and> obs_atr h s = Some a
         \<and> 0 < max 0 (min (shares_by_risk prof pv w a) (shares_by_capital pv ex w px))
         \<and> MIN_ORDER_DOLLARS
              \<le> of_int (max 0 (min (shares_by_risk prof pv w a) (shares_by_capital pv ex w px))) * px
         \<and> size_positions h prof pv ex ((s, w) # ws)
             = (s, max 0 (min (shares_by_risk prof pv w a) (shares_by_capital pv ex w px)))
               # size_positions h prof pv ex ws)"
proof (cases "get_last_price h (src_symbol h s)")
  case None
  then show ?thesis by simp
next
  case (Some px)
  show ?thesis
  proof (cases "obs_atr h s")
    case None
    with Some show ?thesis by simp
  next
    case atr: (Some a)
    let ?n = "max 0 (min (shares_by_risk prof pv w a) (shares_by_capital pv ex w px))"
    show ?thesis
    proof (cases "px \<le> 0 \<or> ?n \<le> 0 \<or> of_int ?n * px < MIN_ORDER_DOLLARS")
      case True
      with Some atr show ?thesis by (auto simp add: Let_def)
    next
      case False
      then have "size_positions h prof pv ex ((s, w) # ws) = (s, ?n) # size_positions h prof pv ex ws"
        using Some atr by (simp add: Let_def)
      with False Some atr show ?thesis by auto
    qed
  qed
qed

lemma weights_sum_one:
  assumes ne: "vols \<noteq> []" and pos: "\<forall>(k, v) \<in> set vols. 0 < v"
  shows "sum_list (map snd (inverse_vol_weights vols)) = 1"
    and "\<forall>(k, w) \<in> set (inverse_vol_weights vols). 0 < w"
proof -
  let ?inv = "map (\<lambda>(s, v). (s, 1 / v)) vols"
  let ?S = "sum_list (map snd ?inv)"
  have invpos: "\<forall>x \<in> set (map snd ?inv). 0 < x"
    using pos by auto
  have S: "0 < ?S"
    using ne invpos by (intro sum_list_pos_nonempty) simp_all
  have "map snd (map (\<lambda>(s, i). (s, i / ?S)) ?inv) = map (\<lambda>x. x * (1 / ?S)) (map snd ?inv)"
    by (simp add: split_beta)
  then have "sum_list (map snd (inverse_vol_weights vols)) = ?S * (1 / ?S)"
    by (simp only: inverse_vol_weights_def Let_def sum_list_scale)
  with S show "sum_list (map snd (inverse_vol_weights vols)) = 1" by simp
  show "\<forall>(k, w) \<in> set (inverse_vol_weights vols). 0 < w"
    using pos S by (auto simp add: inverse_vol_weights_def Let_def)
qed

lemma size_positions_entry:
  assumes "(s, n) \<in> set (size_positions h prof pv ex ws)"
  shows "\<exists>w px a. (s, w) \<in> set ws \<and> get_last_price h (src_symbol h s) = Some px \<and> 0 < px
           \<and> obs_atr h s = Some a
           \<and> n = max 0 (min (shares_by_risk prof pv w a) (shares_by_capital pv ex w px))
           \<and> 0 < n \<and> MIN_ORDER_DOLLARS \<le> of_int n * px"
  using assms
proof (induction ws)
  case Nil
  then show ?case by simp
next
  case (Cons p ws)
  obtain s' w' where p: "p = (s', w')" by force
  show ?case
  proof (cases "(s, n) \<in> set (size_positions h prof pv ex ws)")
    case True
    from Cons.IH [OF True] show ?thesis by auto
  next
    case False
    with Cons.prems p size_positions_step [of h prof pv ex s' w' ws]
    obtain px a where
      "get_last_price h (src_symbol h s') = Some px" "0 < px" "obs_atr h s' = Some a"
      "0 < max 0 (min (shares_by_risk prof pv w' a) (shares_by_capital pv ex w' px))"
      "MIN_ORDER_DOLLARS
         \<le> of_int (max 0 (min (shares_by_risk prof pv w' a) (shares_by_capital pv ex w' px))) * px"
      "size_positions h prof pv ex (p # ws)
         = (s', max 0 (min (shares_by_risk prof pv w' a) (shares_by_capital pv ex w' px)))
           # size_positions h prof pv ex ws"
      by metis
    with Cons.prems False p show ?thesis by auto
  qed
qed

lemma positive_min:
  fixes a b n :: int
  assumes "n = max 0 (min a b)" and "0 < n"
  shows "n \<le> a" and "n \<le> b"
  using assms by (simp_all add: max_def min_def split: if_splits)

lemma capital_bound:
  assumes "0 < px" and "0 < n" and "n \<le> shares_by_capital pv ex w px"
  shows "of_int n * px \<le> pv * ex * w"
proof -
  from assms(3) have "of_int n \<le> pv * ex * w / px"
    by (simp add: shares_by_capital_def floor_div_def le_floor_iff)
  with assms(1) show ?thesis by (simp add: pos_le_divide_eq)
qed

lemma size_positions_bound:
  assumes "\<forall>(s, w) \<in> set ws. 0 \<le> w" and "0 \<le> pv * ex"
  shows "allocated_dollars h (size_positions h prof pv ex ws) \<le> pv * ex * sum_list (map snd ws)"
  using assms(1)
proof (induction ws)
  case Nil
  then show ?case by (simp add: allocated_dollars_def)
next
  case (Cons p ws)
  obtain s w where p: "p = (s, w)" by force
  from Cons.prems p have w: "0 \<le> w" and rest: "\<forall>(s, w) \<in> set ws. 0 \<le> w" by auto
  have ih: "allocated_dollars h (size_positions h prof pv ex ws) \<le> pv * ex * sum_list (map snd ws)"
    by (rule Cons.IH [OF rest])
  have nonneg: "0 \<le> pv * ex * w"
    using assms(2) w by (rule mult_nonneg_nonneg)
  have dist: "pv * ex * sum_list (map snd (p # ws)) = pv * ex * w + pv * ex * sum_list (map snd ws)"
    by (simp add: p distrib_left)
  show ?case
  proof (cases "size_positions h prof pv ex (p # ws) = size_positions h prof pv ex ws")
    case True
    with ih nonneg dist show ?thesis by simp
  next
    case False
    with size_positions_step [of h prof pv ex s w ws] p obtain px a where
      px: "get_last_price h (src_symbol h s) = Some px" "0 < px"
      and n0: "0 < max 0 (min (shares_by_risk prof pv w a) (shares_by_capital pv ex w px))"
      and eq0: "size_positions h prof pv ex (p # ws)
            = (s, max 0 (min (shares_by_risk prof pv w a) (shares_by_capital pv ex w px)))
              # size_positions h prof pv ex ws"
      by blast
    define n where "n = max 0 (min (shares_by_risk prof pv w a) (shares_by_capital pv ex w px))"
    from n0 eq0 have n: "n = max 0 (min (shares_by_risk prof pv w a) (shares_by_capital pv ex w px))" "0 < n"
      and eq: "size_positions h prof pv ex (p # ws) = (s, n) # size_positions h prof pv ex ws"
      by (simp_all add: n_def)
    from n have "n \<le> shares_by_capital pv ex w px" by simp
    from capital_bound [OF px(2) n(2) this] have "of_int n * px \<le> pv * ex * w" .
    moreover have "price_of h s = px" by (simp add: price_of_def px)
    ultimately have "allocated_dollars h ((s, n) # size_positions h prof pv ex ws)
          \<le> pv * ex * w + pv * ex * sum_list (map snd ws)"
      using ih by (simp add: allocated_dollars_def)
    with eq dist show ?thesis by simp
  qed
qed

lemma size_positions_complete:
  assumes "(s, w) \<in> set ws" and "get_last_price h (src_symbol h s) = Some px" and "0 < px"
    and "obs_atr h s = Some a"
    and "0 < max 0 (min (shares_by_risk prof pv w a) (shares_by_capital pv ex w px))"
    and "MIN_ORDER_DOLLARS
           \<le> of_int (max 0 (min (shares_by_risk prof pv w a) (shares_by_capital pv ex w px))) * px"
  shows "(s, max 0 (min (shares_by_risk prof pv w a) (shares_by_capital pv ex w px)))
           \<in> set (size_positions h prof pv ex ws)"
  using assms(1)
proof (induction ws)
  case Nil
  then show ?case by simp
next
  case (Cons p ws)
  obtain s' w' where p: "p = (s', w')" by force
  show ?case
  proof (cases "p = (s, w)")
    case True
    have "size_positions h prof pv ex ((s, w) # ws)
          = (s, max 0 (min (shares_by_risk prof pv w a) (shares_by_capital pv ex w px)))
            # size_positions h prof pv ex ws"
      using assms(2-6) by (simp add: Let_def)
    with True show ?thesis by simp
  next
    case False
    with Cons.prems have "(s, w) \<in> set ws" by simp
    from Cons.IH [OF this] size_positions_step [of h prof pv ex s' w' ws] p
    show ?thesis by auto
  qed
qed

lemma build_vols_distinct:
  "distinct (map fst acc) \<Longrightarrow> distinct (map fst (build_vols h sel acc))"
proof (induction sel arbitrary: acc)
  case Nil
  then show ?case by simp
next
  case (Cons s sel)
  then show ?case
    by (cases "obs_realized_vol h s") (simp_all add: distinct_update)
qed

lemma weights_keys: "map fst (inverse_vol_weights vols) = map fst vols"
  by (simp add: inverse_vol_weights_def Let_def split_beta)

lemma weights_distinct:
  "distinct (map fst (inverse_vol_weights (build_vols h selected [])))"
  by (simp add: weights_keys build_vols_distinct)

lemma distinct_value:
  assumes "distinct (map fst ws)" and "(k, v) \<in> set ws" and "(k, v') \<in> set ws"
  shows "v = v'"
  using assms by (meson eq_key_imp_eq_value)

text \<open>
  Claim C6, as stated, fails. A selected symbol with a valid price, ATR and weight gets no
  target when its count is worth less than the minimum order: with the portfolio value
  1,000, the price 100 and the ATR 2 the count \<open>max(0, min(1, 10))\<close> is 1, worth 100,
  below \<open>MIN_ORDER_DOLLARS\<close>, so \<open>desired_qty\<close> is empty and the rebalance submits no
  order. And with the portfolio value -100 nothing is sized, so the sum of shares times
  price is 0, above \<open>pv * exposure = -100\<close>.
\<close>

theorem C6_min_order_counterexample:
  "(''A'', 1) \<in> set (inverse_vol_weights (build_vols small_host [''A''] []))
   \<and> get_last_price small_host (src_symbol small_host ''A'') = Some 100
   \<and> obs_atr small_host ''A'' = Some 2
   \<and> max 0 (min (shares_by_risk balanced_profile (get_portfolio_value small_host) 1 2)
                 (shares_by_capital (get_portfolio_value small_host) (max 0 (min 1 1)) 1 100)) = 1
   \<and> desired_qty small_host balanced_profile [''A''] (max 0 (min 1 1)) = []
   \<and> snd (rebalance small_host fresh_engine [''A''] 1) = []
   \<and> (''A'', 2 / 3) \<in> set (inverse_vol_weights (build_vols indebted_host [''A'', ''B''] []))
   \<and> get_last_price indebted_host (src_symbol indebted_host ''A'') = Some 100
   \<and> obs_atr indebted_host ''A'' = Some 2
   \<and> get_portfolio_value indebted_host * max 0 (min 1 1)
         < allocated_dollars indebted_host
             (desired_qty indebted_host balanced_profile [''A'', ''B''] (max 0 (min 1 1)))"
  by code_simp

text \<open>
  Claim C6, amended. With the exposure clamped to \<open>[0, 1]\<close> as \<open>_rebalance\<close> does, take
  a selected symbol with an inverse-volatility weight \<open>w\<close>, a last price \<open>px > 0\<close> and
  an ATR \<open>a\<close>, and its count \<open>max(0, min(shares_by_risk, shares_by_capital))\<close>, with
  \<open>shares_by_risk = floor(min(pv * total_risk_budget * w, pv * risk_per_entry_cap)
  / max(0.01, atr_mult_trail * a))\<close> and
  \<open>shares_by_capital = floor(pv * exposure * w / px)\<close>. When the count is positive and
  count times price is at least \<open>MIN_ORDER_DOLLARS\<close> the symbol's target in
  \<open>desired_qty\<close> is the count; otherwise the symbol has no target. Every entry of
  \<open>desired_qty\<close> arises this way, so every target is at most both counts. The sum of
  shares times price over the sized symbols is at most \<open>pv * exposure\<close> when the
  portfolio value is not negative, and also whenever a symbol is sized at all.
\<close>

theorem C6_risk_sizing:
  "((s, n) \<in> set (desired_qty h prof selected (max 0 (min 1 exposure0)))
      \<longrightarrow> (\<exists>w px a. (s, w) \<in> set (inverse_vol_weights (build_vols h selected []))
             \<and> get_last_price h (src_symbol h s) = Some px \<and> 0 < px
             \<and> obs_atr h s = Some a
             \<and> shares_by_risk prof (get_portfolio_value h) w a
                 = \<lfloor>min (get_portfolio_value h * total_risk_budget prof * w)
                        (get_portfolio_value h * risk_per_entry_cap prof)
                    / max (1 / 100) (atr_mult_trail prof * a)\<rfloor>
             \<and> shares_by_capital (get_portfolio_value h) (max 0 (min 1 exposure0)) w px
                 = \<lfloor>get_portfolio_value h * max 0 (min 1 exposure0) * w / px\<rfloor>
             \<and> n = max 0 (min (shares_by_risk prof (get_portfolio_value h) w a)
                               (shares_by_capital (get_portfolio_value h)
                                  (max 0 (min 1 exposure0)) w px))
             \<and> n \<le> shares_by_risk prof (get_portfolio_value h) w a
             \<and> n \<le> shares_by_capital (get_portfolio_value h) (max 0 (min 1 exposure0)) w px
             \<and> 0 < n
             \<and> MIN_ORDER_DOLLARS \<le> of_int n * px))
   \<and> (0 \<le> get_portfolio_value h \<or> desired_qty h prof selected (max 0 (min 1 exposure0)) \<noteq> []
      \<longrightarrow> allocated_dollars h (desired_qty h prof selected (max 0 (min 1 exposure0)))
            \<le> get_portfolio_value h * max 0 (min 1 exposure0))
   \<and> ((t, w0) \<in> set (inverse_vol_weights (build_vols h selected []))
        \<and> get_last_price h (src_symbol h t) = Some px0 \<and> 0 < px0 \<and> obs_atr h t = Some a0
        \<and> 0 < max 0 (min (shares_by_risk prof (get_portfolio_value h) w0 a0)
                         (shares_by_capital (get_portfolio_value h)
                            (max 0 (min 1 exposure0)) w0 px0))
        \<and> MIN_ORDER_DOLLARS
             \<le> of_int (max 0 (min (shares_by_risk prof (get_portfolio_value h) w0 a0)
                                    (shares_by_capital (get_portfolio_value h)
                                       (max 0 (min 1 exposure0)) w0 px0))) * px0
      \<longrightarrow> (t, max 0 (min (shares_by_risk prof (get_portfolio_value h) w0 a0)
                          (shares_by_capital (get_portfolio_value h)
                             (max 0 (min 1 exposure0)) w0 px0)))
            \<in> set (desired_qty h prof selected (max 0 (min 1 exposure0))))
   \<and> ((t, w0) \<in> set (inverse_vol_weights (build_vols h selected []))
        \<and> get_last_price h (src_symbol h t) = Some px0 \<and> obs_atr h t = Some a0
        \<and> (max 0 (min (shares_by_risk prof (get_portfolio_value h) w0 a0)
                      (shares_by_capital (get_portfolio_value h)
                         (max 0 (min 1 exposure0)) w0 px0)) \<le> 0
            \<or> of_int (max 0 (min (shares_by_risk prof (get_portfolio_value h) w0 a0)
                                  (shares_by_capital (get_portfolio_value h)
                                     (max 0 (min 1 exposure0)) w0 px0))) * px0
                < MIN_ORDER_DOLLARS)
      \<longrightarrow> t \<notin> fst ` set (desired_qty h prof selected (max 0 (min 1 exposure0))))"
proof -
  let ?pv = "get_portfolio_value h"
  let ?ex = "max 0 (min 1 exposure0)"
  let ?vols = "build_vols h selected []"
  let ?ws = "inverse_vol_weights ?vols"
  let ?d = "desired_qty h prof selected ?ex"
  have d: "?d = size_positions h prof ?pv ?ex ?ws"
    by (simp add: desired_qty_def)
  have ex: "0 \<le> ?ex" by simp
  have vpos: "\<forall>(k, v) \<in> set ?vols. 0 < v"
    by (rule build_vols_positive) simp
  have entry: "(s, n) \<in> set ?d
      \<longrightarrow> (\<exists>w px a. (s, w) \<in> set ?ws
             \<and> get_last_price h (src_symbol h s) = Some px \<and> 0 < px
             \<and> obs_atr h s = Some a
             \<and> shares_by_risk prof ?pv w a
                 = \<lfloor>min (?pv * total_risk_budget prof * w) (?pv * risk_per_entry_cap prof)
                    / max (1 / 100) (atr_mult_trail prof * a)\<rfloor>
             \<and> shares_by_capital ?pv ?ex w px = \<lfloor>?pv * ?ex * w / px\<rfloor>
             \<and> n = max 0 (min (shares_by_risk prof ?pv w a) (shares_by_capital ?pv ?ex w px))
             \<and> n \<le> shares_by_risk prof ?pv w a
             \<and> n \<le> shares_by_capital ?pv ?ex w px
             \<and> 0 < n
             \<and> MIN_ORDER_DOLLARS \<le> of_int n * px)" for s n
  proof
    assume "(s, n) \<in> set ?d"
    with d have "(s, n) \<in> set (size_positions h prof ?pv ?ex ?ws)" by simp
    from size_positions_entry [OF this] obtain w px a where
      e: "(s, w) \<in> set ?ws" "get_last_price h (src_symbol h s) = Some px" "0 < px"
         "obs_atr h s = Some a"
         "n = max 0 (min (shares_by_risk prof ?pv w a) (shares_by_capital ?pv ?ex w px))"
         "0 < n" "MIN_ORDER_DOLLARS \<le> of_int n * px"
      by blast
    from e(5,6) have le: "n \<le> shares_by_risk prof ?pv w a"
      "n \<le> shares_by_capital ?pv ?ex w px" by (rule positive_min)+
    have f1: "shares_by_risk prof ?pv w a
                 = \<lfloor>min (?pv * total_risk_budget prof * w) (?pv * risk_per_entry_cap prof)
                    / max (1 / 100) (atr_mult_trail prof * a)\<rfloor>"
      by (simp add: shares_by_risk_def floor_div_def Let_def)
    have f2: "shares_by_capital ?pv ?ex w px = \<lfloor>?pv * ?ex * w / px\<rfloor>"
      by (simp add: shares_by_capital_def floor_div_def)
    from e le f1 f2
    show "\<exists>w px a. (s, w) \<in> set ?ws
             \<and> get_last_price h (src_symbol h s) = Some px \<and> 0 < px
             \<and> obs_atr h s = Some a
             \<and> shares_by_risk prof ?pv w a
                 = \<lfloor>min (?pv * total_risk_budget prof * w) (?pv * risk_per_entry_cap prof)
                    / max (1 / 100) (atr_mult_trail prof * a)\<rfloor>
             \<and> shares_by_capital ?pv ?ex w px = \<lfloor>?pv * ?ex * w / px\<rfloor>
             \<and> n = max 0 (min (shares_by_risk prof ?pv w a) (shares_by_capital ?pv ?ex w px))
             \<and> n \<le> shares_by_risk prof ?pv w a
             \<and> n \<le> shares_by_capital ?pv ?ex w px
             \<and> 0 < n
             \<and> MIN_ORDER_DOLLARS \<le> of_int n * px"
      by blast
  qed
  have total: "0 \<le> ?pv \<or> ?d \<noteq> [] \<longrightarrow> allocated_dollars h ?d \<le> ?pv * ?ex"
  proof
    assume a: "0 \<le> ?pv \<or> ?d \<noteq> []"
    show "allocated_dollars h ?d \<le> ?pv * ?ex"
    proof (cases "?vols = []")
      case True
      then have empty: "?d = []" by (simp add: d inverse_vol_weights_def)
      with a have "0 \<le> ?pv" by simp
      from this ex have "0 \<le> ?pv * ?ex" by (rule mult_nonneg_nonneg)
      with empty show ?thesis by (simp add: allocated_dollars_def)
    next
      case False
      note w = weights_sum_one [OF False vpos]
      have wnonneg: "\<forall>(s, w) \<in> set ?ws. 0 \<le> w"
        using w(2) by (auto intro: less_imp_le)
      have budget: "0 \<le> ?pv * ?ex"
      proof (cases "0 \<le> ?pv")
        case True
        from True ex show ?thesis by (rule mult_nonneg_nonneg)
      next
        case False
        with a have "?d \<noteq> []" by simp
        then obtain s' n' where "(s', n') \<in> set (size_positions h prof ?pv ?ex ?ws)"
          unfolding d by (cases "size_positions h prof ?pv ?ex ?ws") auto
        from size_positions_entry [OF this] obtain w' px' a' where
          e: "(s', w') \<in> set ?ws" "0 < px'"
             "n' = max 0 (min (shares_by_risk prof ?pv w' a') (shares_by_capital ?pv ?ex w' px'))"
             "0 < n'"
          by blast
        from e(3,4) have "n' \<le> shares_by_capital ?pv ?ex w' px'" by (rule positive_min)
        from capital_bound [OF e(2) e(4) this] have "of_int n' * px' \<le> ?pv * ?ex * w'" .
        moreover from e(2,4) have "0 < of_int n' * px'" by simp
        ultimately have pos: "0 < ?pv * ?ex * w'" by linarith
        from e(1) w(2) have "0 < w'" by auto
        with pos have "0 < ?pv * ?ex" by (simp add: zero_less_mult_iff)
        then show ?thesis by simp
      qed
      from size_positions_bound [OF wnonneg budget, of h prof]
      have "allocated_dollars h ?d \<le> ?pv * ?ex * sum_list (map snd ?ws)"
        by (simp add: d)
      with w(1) show ?thesis by simp
    qed
  qed
  let ?count = "max 0 (min (shares_by_risk prof ?pv w0 a0) (shares_by_capital ?pv ?ex w0 px0))"
  have complete: "(t, w0) \<in> set ?ws
        \<and> get_last_price h (src_symbol h t) = Some px0 \<and> 0 < px0 \<and> obs_atr h t = Some a0
        \<and> 0 < ?count \<and> MIN_ORDER_DOLLARS \<le> of_int ?count * px0
      \<longrightarrow> (t, ?count) \<in> set ?d"
    unfolding d by (intro impI size_positions_complete) simp_all
  have dropped: "(t, w0) \<in> set ?ws
        \<and> get_last_price h (src_symbol h t) = Some px0 \<and> obs_atr h t = Some a0
        \<and> (?count \<le> 0 \<or> of_int ?count * px0 < MIN_ORDER_DOLLARS)
      \<longrightarrow> t \<notin> fst ` set ?d"
  proof (intro impI notI)
    assume a: "(t, w0) \<in> set ?ws
        \<and> get_last_price h (src_symbol h t) = Some px0 \<and> obs_atr h t = Some a0
        \<and> (?count \<le> 0 \<or> of_int ?count * px0 < MIN_ORDER_DOLLARS)"
    assume "t \<in> fst ` set ?d"
    then obtain m where "(t, m) \<in> set ?d" by force
    with entry [of t m] obtain w px a' where
      e: "(t, w) \<in> set ?ws" "get_last_price h (src_symbol h t) = Some px" "obs_atr h t = Some a'"
         "m = max 0 (min (shares_by_risk prof ?pv w a') (shares_by_capital ?pv ?ex w px))"
         "0 < m" "MIN_ORDER_DOLLARS \<le> of_int m * px"
      by blast
    from a have tw: "(t, w0) \<in> set ?ws" by (rule conjunct1)
    have "w = w0"
      by (rule distinct_value [OF weights_distinct e(1) tw])
    moreover from a e(2) have "px = px0" by simp
    moreover from a e(3) have "a' = a0" by simp
    ultimately have m: "m = ?count" using e(4) by (simp only:)
    from e(5) have c1: "\<not> ?count \<le> 0"
      unfolding m by (simp only: not_le)
    from e(6) \<open>px = px0\<close> have c2: "\<not> of_int ?count * px0 < MIN_ORDER_DOLLARS"
      unfolding m by (simp only: not_less)
    from a c1 c2 show False by blast
  qed
  from entry [of s n] total complete dropped show ?thesis by blast
qed

lemma sizing_desired:
  "desired_qty sizing_host balanced_profile [''A'', ''B''] (max 0 (min 1 (59 / 100)))
   = [(''A'', 185), (''B'', 370)]"
  by code_simp

lemma sizing_facts:
  "(''A'', 2 / 3) \<in> set (inverse_vol_weights (build_vols sizing_host [''A'', ''B''] []))"
  "get_last_price sizing_host (src_symbol sizing_host ''A'') = Some 100"
  "obs_atr sizing_host ''A'' = Some 2"
  "shares_by_risk balanced_profile (get_portfolio_value sizing_host) (2 / 3) 2 = 185"
  "shares_by_capital (get_portfolio_value sizing_host) (max 0 (min 1 (59 / 100))) (2 / 3) 100 = 393"
  by code_simp+

lemma small_facts:
  "(''A'', 1) \<in> set (inverse_vol_weights (build_vols small_host [''A''] []))"
  "get_last_price small_host (src_symbol small_host ''A'') = Some 100"
  "obs_atr small_host ''A'' = Some 2"
  "shares_by_risk balanced_profile (get_portfolio_value small_host) 1 2 = 1"
  "shares_by_capital (get_portfolio_value small_host) (max 0 (min 1 1)) 1 100 = 10"
  by code_simp+

theorem C6_risk_sizing_witness:
  "(''A'', 185) \<in> set (desired_qty sizing_host balanced_profile [''A'', ''B'']
                          (max 0 (min 1 (59 / 100))))
   \<and> 0 \<le> get_portfolio_value sizing_host
   \<and> allocated_dollars sizing_host
        (desired_qty sizing_host balanced_profile [''A'', ''B''] (max 0 (min 1 (59 / 100))))
       \<le> 59000
   \<and> (\<exists>w px a. 185 \<le> shares_by_risk balanced_profile (get_portfolio_value sizing_host) w a
              \<and> 185 \<le> shares_by_capital (get_portfolio_value sizing_host)
                          (max 0 (min 1 (59 / 100))) w px
              \<and> MIN_ORDER_DOLLARS \<le> of_int 185 * px)
   \<and> (''A'', 2 / 3) \<in> set (inverse_vol_weights (build_vols sizing_host [''A'', ''B''] []))
   \<and> get_last_price sizing_host (src_symbol sizing_host ''A'') = Some 100
   \<and> obs_atr sizing_host ''A'' = Some 2
   \<and> (''A'', max 0 (min (shares_by_risk balanced_profile (get_portfolio_value sizing_host) (2 / 3) 2)
                        (shares_by_capital (get_portfolio_value sizing_host)
                           (max 0 (min 1 (59 / 100))) (2 / 3) 100)))
        \<in> set (desired_qty sizing_host balanced_profile [''A'', ''B'']
                          (max 0 (min 1 (59 / 100))))
   \<and> (''A'', 1) \<in> set (inverse_vol_weights (build_vols small_host [''A''] []))
   \<and> get_last_price small_host (src_symbol small_host ''A'') = Some 100
   \<and> obs_atr small_host ''A'' = Some 2
   \<and> of_int (max 0 (min (shares_by_risk balanced_profile (get_portfolio_value small_host) 1 2)
                         (shares_by_capital (get_portfolio_value small_host)
                            (max 0 (min 1 1)) 1 100))) * 100 < MIN_ORDER_DOLLARS
   \<and> ''A'' \<notin> fst ` set (desired_qty small_host balanced_profile [''A''] (max 0 (min 1 1)))"
proof -
  have m: "(''A'', 185) \<in> set (desired_qty sizing_host balanced_profile [''A'', ''B'']
                          (max 0 (min 1 (59 / 100))))"
    unfolding sizing_desired by simp
  have pv: "get_portfolio_value sizing_host = 100000"
    by (simp add: sizing_host_def quiet_host_def)
  then have nn: "0 \<le> get_portfolio_value sizing_host" by simp
  have pos: "0 < max 0 (min (shares_by_risk balanced_profile (get_portfolio_value sizing_host) (2 / 3) 2)
                        (shares_by_capital (get_portfolio_value sizing_host)
                           (max 0 (min 1 (59 / 100))) (2 / 3) 100))"
    unfolding sizing_facts by simp
  have big: "MIN_ORDER_DOLLARS
      \<le> of_int (max 0 (min (shares_by_risk balanced_profile (get_portfolio_value sizing_host) (2 / 3) 2)
                        (shares_by_capital (get_portfolio_value sizing_host)
                           (max 0 (min 1 (59 / 100))) (2 / 3) 100))) * 100"
    unfolding sizing_facts by (simp add: MIN_ORDER_DOLLARS_def)
  have px: "(0::real) < 100" by simp
  have small: "of_int (max 0 (min (shares_by_risk balanced_profile (get_portfolio_value small_host) 1 2)
                         (shares_by_capital (get_portfolio_value small_host)
                            (max 0 (min 1 1)) 1 100))) * 100 < MIN_ORDER_DOLLARS"
    unfolding small_facts by (simp add: MIN_ORDER_DOLLARS_def)
  note t = C6_risk_sizing [where s = "''A''" and n = 185 and h = sizing_host
      and prof = balanced_profile and selected = "[''A'', ''B'']" and ?exposure0.0 = "59 / 100"
      and t = "''A''" and ?w0.0 = "2 / 3" and ?px0.0 = 100 and ?a0.0 = 2]
  note u = C6_risk_sizing [where h = small_host and prof = balanced_profile and selected = "[''A'']"
      and ?exposure0.0 = 1 and t = "''A''" and ?w0.0 = 1 and ?px0.0 = 100 and ?a0.0 = 2]
  from t m have bounds:
    "\<exists>w px a. 185 \<le> shares_by_risk balanced_profile (get_portfolio_value sizing_host) w a
              \<and> 185 \<le> shares_by_capital (get_portfolio_value sizing_host)
                          (max 0 (min 1 (59 / 100))) w px
              \<and> MIN_ORDER_DOLLARS \<le> of_int 185 * px"
    by blast
  from t nn have "allocated_dollars sizing_host
        (desired_qty sizing_host balanced_profile [''A'', ''B''] (max 0 (min 1 (59 / 100))))
       \<le> get_portfolio_value sizing_host * max 0 (min 1 (59 / 100))"
    by blast
  then have total: "allocated_dollars sizing_host
        (desired_qty sizing_host balanced_profile [''A'', ''B''] (max 0 (min 1 (59 / 100))))
       \<le> 59000"
    by (simp add: pv)
  from t sizing_facts(1-3) px pos big
  have sized: "(''A'', max 0 (min (shares_by_risk balanced_profile (get_portfolio_value sizing_host) (2 / 3) 2)
                        (shares_by_capital (get_portfolio_value sizing_host)
                           (max 0 (min 1 (59 / 100))) (2 / 3) 100)))
        \<in> set (desired_qty sizing_host balanced_profile [''A'', ''B'']
                          (max 0 (min 1 (59 / 100))))"
    by blast
  from u small_facts(1-3) small
  have dropped: "''A'' \<notin> fst ` set (desired_qty small_host balanced_profile [''A''] (max 0 (min 1 1)))"
    by blast
  from m nn total bounds sizing_facts(1-3) sized small_facts(1-3) small dropped
  show ?thesis by blast
qed

section \<open>The drawdown breaker\<close>

text \<open>The breaker keeps no record of having fired: on every step on which the value is
  not above the peak and the drawdown reaches \<open>max_drawdown\<close>, it liquidates and sets
  the cooldown anew, and the peak stays.\<close>

lemma breaker_fires_whenever_in_drawdown:
  assumes "equity_peak e = Some peak" and "\<not> get_portfolio_value h > peak"
    and "drawdown peak (get_portfolio_value h) \<ge> max_drawdown (profile e)"
  shows "cooldown_until (fst (apply_drawdown_breaker h e)) = Some (today h + cooldown_days (profile e))
       \<and> snd (apply_drawdown_breaker h e) = snd (liquidate h (get_positions h) (highest_close e))
       \<and> equity_peak (fst (apply_drawdown_breaker h e)) = Some peak"
  using assms by (simp add: apply_drawdown_breaker_def Let_def split_beta)

text \<open>
  Claim C1 says that after the breaker has fired it does not fire again until the value
  has exceeded a new all-time peak and fallen from it by \<open>max_drawdown\<close>. The engine does
  otherwise. With the balanced preset (drawdown 0.20, cooldown 10 days): day 1 at 100 sets
  the peak; day 2 at 80 fires the breaker, which sells the position and sets the cooldown to
  day 12; day 3, still at 80 with the peak still 100 and no new peak in between, fires it
  again, with the same exit order and the cooldown moved to day 13. When the host reports
  no position on day 3 the breaker fires all the same: there is nothing to sell, and the
  cooldown moves to day 13.
\<close>

theorem C1_breaker_fires_again:
  "equity_peak after_day_1 = Some 100
   \<and> cooldown_until after_day_1 = None
   \<and> snd (on_trading_iteration (equity_day 2 80) after_day_1) = [Order ''A'' 5 Sell]
   \<and> equity_peak after_day_2 = Some 100
   \<and> cooldown_until after_day_2 = Some 12
   \<and> get_portfolio_value (equity_day 3 80) \<le> 100
   \<and> snd (on_trading_iteration (equity_day 3 80) after_day_2) = [Order ''A'' 5 Sell]
   \<and> equity_peak after_day_3 = Some 100
   \<and> cooldown_until after_day_3 = Some 13
   \<and> snd (on_trading_iteration (quiet_host 3 80) after_day_2) = []
   \<and> cooldown_until (fst (on_trading_iteration (quiet_host 3 80) after_day_2)) = Some 13"
  by code_simp

end
